theory Spec2Isabelle
  imports Complex_Main "HOL-Library.AList"
begin

section \<open>Conveyor control: the production state machine of bbb.py\<close>

text \<open>
  The program is a Flask application that drives a conveyor through a PLC reached over
  Modbus. Every HTTP handler is embedded as a function on a \<open>world\<close>: the holding
  registers of the PLC, the outcome of the coming bus transactions, and the Flask session
  that carries the production run.

  Conventions of the embedding.
  \<^item> Python \<open>int\<close> is \<open>int\<close>; wall-clock readings (\<open>datetime.now()\<close>) are \<open>real\<close>
    seconds, so \<open>total_seconds()\<close> of a difference is a subtraction.
  \<^item> An exception is a value \<open>Inl e\<close>; the handlers' \<open>try/except\<close> turns it into the
    HTTP 500 reply.
  \<^item> \<open>production = session['production_data']\<close> is an alias of the dictionary held by
    the session: updating \<open>production\<close> updates the field \<open>session\<close> of the world in
    place. The assignment \<open>session['production_data'] = production\<close> only sets the flag
    \<open>modified\<close>, which is what lets Flask write the session back at the end of the request.
  \<^item> What the printer, the clock and the random generator return is an argument of the
    handler.
\<close>

subsection \<open>Data\<close>

datatype exn = PLCError | StructError | IndexError | TypeError | ValueError | KeyError

datatype run_status = waiting_for_conveyor | running | completed | stopped

record qr_payload =
  p_unique_id :: string
  p_biscuit_type :: string
  p_brand :: string
  p_production_type :: string
  p_production_time :: real
  p_box_number :: int
  p_total_boxes :: int

record qr_code =
  unique_id :: string
  qr_data :: qr_payload
  qr_image :: string

text \<open>What one call of \<open>generate_qr_code\<close> draws from the clock and from \<open>random\<close>.\<close>

record qr_stamp =
  timestamp :: string
  random_str :: string
  stamp_time :: real

text \<open>The dictionary \<open>session['production_data']\<close>. The key \<open>queued_box\<close> is absent
  until the conveyor has acknowledged (\<open>production.get('queued_box')\<close> is then \<open>None\<close>),
  and so is \<open>end_time\<close> until completion.\<close>

record production =
  biscuit_type :: string
  brand :: string
  production_type :: string
  quantity :: int
  qr_codes :: "qr_code list"
  current_index :: int
  accepted_boxes :: int
  rejected_boxes :: int
  start_time :: real
  end_time :: "real option"
  status :: run_status
  sensor_check_start :: "real option"
  waiting_for_proximity_1 :: bool
  waiting_for_proximity_2 :: bool
  waiting_for_qr :: bool
  queued_box :: "bool option"

text \<open>Values of a JSON reply; \<open>JExn e\<close> stands for \<open>str(e)\<close>.\<close>

datatype jval = JStr string | JInt int | JBool bool | JNum real | JCode qr_code | JExn exn

type_synonym pydict = "(string \<times> jval) list"

text \<open>\<open>jsonify(body), code\<close>\<close>

type_synonym reply = "pydict \<times> nat"

text \<open>
  The registers are indexed by their offset \<open>address - 400001\<close>, as the Modbus calls are.
  \<open>faults\<close> is the outcome of the bus transactions to come, oldest first: \<open>True\<close> is a
  transaction that fails (no connection, an error reply, a timeout); once the list is
  used up every transaction succeeds.
\<close>

record world =
  regs :: "int \<Rightarrow> int"
  faults :: "bool list"
  session :: "production option"
  modified :: bool

type_synonym 'a handler = "world \<Rightarrow> (exn + 'a) \<times> world"

subsection \<open>Sequencing with exceptions\<close>

definition return_h :: "'a \<Rightarrow> 'a handler" where
  "return_h a w = (Inr a, w)"

definition raise_h :: "exn \<Rightarrow> 'a handler" where
  "raise_h e w = (Inl e, w)"

definition bind_h :: "'a handler \<Rightarrow> ('a \<Rightarrow> 'b handler) \<Rightarrow> 'b handler" where
  "bind_h m f w = (case m w of (Inl e, w') \<Rightarrow> (Inl e, w') | (Inr a, w') \<Rightarrow> f a w')"

definition seq_h :: "unit handler \<Rightarrow> 'b handler \<Rightarrow> 'b handler" where
  "seq_h m k = bind_h m (\<lambda>_. k)"

fun do_all :: "unit handler list \<Rightarrow> unit handler" where
  "do_all [] = return_h ()"
| "do_all (m # ms) = seq_h m (do_all ms)"

definition lift_h :: "exn + 'a \<Rightarrow> 'a handler" where
  "lift_h r w = (r, w)"

subsection \<open>Python lists and dictionaries\<close>

text \<open>\<open>xs[i]\<close> of Python: \<open>-1\<close> is the last element, and outside \<open>-len .. len - 1\<close> the access raises.\<close>

definition py_index :: "'a list \<Rightarrow> int \<Rightarrow> exn + 'a" where
  "py_index xs i =
     (if 0 \<le> i \<and> i < int (length xs) then Inr (xs ! nat i)
      else if i < 0 \<and> - int (length xs) \<le> i then Inr (xs ! nat (int (length xs) + i))
      else Inl IndexError)"

text \<open>\<open>xs[i] = v\<close>\<close>

definition py_store :: "'a list \<Rightarrow> int \<Rightarrow> 'a \<Rightarrow> exn + 'a list" where
  "py_store xs i v =
     (if 0 \<le> i \<and> i < int (length xs) then Inr (xs[nat i := v])
      else if i < 0 \<and> - int (length xs) \<le> i then Inr (xs[nat (int (length xs) + i) := v])
      else Inl IndexError)"

text \<open>\<open>d.update({k1: v1, ...})\<close>: an existing key keeps its place, a new one is appended.\<close>

definition dict_update :: "pydict \<Rightarrow> pydict \<Rightarrow> pydict" where
  "dict_update d kvs = foldl (\<lambda>acc (k, v). AList.update k v acc) d kvs"

subsection \<open>The PLC\<close>

definition CONVEYOR_CONTROL_ADDRESS :: int where "CONVEYOR_CONTROL_ADDRESS = 400001"
definition PROXIMITY_SENSOR_1_ADDRESS :: int where "PROXIMITY_SENSOR_1_ADDRESS = 400002"
definition PROXIMITY_SENSOR_2_ADDRESS :: int where "PROXIMITY_SENSOR_2_ADDRESS = 400003"
definition QR_SCANNER_ADDRESS :: int where "QR_SCANNER_ADDRESS = 400004"
definition ACCEPTED_BOXES_ADDRESS :: int where "ACCEPTED_BOXES_ADDRESS = 400005"
definition PRODUCTION_COMPLETE_ADDRESS :: int where "PRODUCTION_COMPLETE_ADDRESS = 400006"
definition BOX_STATUS_INDICATOR_ADDRESS :: int where "BOX_STATUS_INDICATOR_ADDRESS = 400007"

text \<open>One bus transaction: does it fail, and what is left of the schedule.\<close>

definition next_fault :: "world \<Rightarrow> bool" where
  "next_fault w = (case faults w of [] \<Rightarrow> False | f # _ \<Rightarrow> f)"

definition consume_fault :: "world \<Rightarrow> world" where
  "consume_fault w = w\<lparr>faults := tl (faults w)\<rparr>"

definition read_plc_memory :: "int \<Rightarrow> int handler" where
  "read_plc_memory address w =
     (if next_fault w then (Inl PLCError, consume_fault w)
      else (Inr (regs w (address - 400001)), consume_fault w))"

text \<open>
  A holding register is 16 bits wide: the request that \<open>write_register\<close> builds packs
  the value as an unsigned 16-bit number, and a value outside \<open>0 .. 65535\<close> raises
  there, after the connection was made and before anything is sent.
\<close>

definition write_plc_memory :: "int \<Rightarrow> int \<Rightarrow> unit handler" where
  "write_plc_memory address v w =
     (if next_fault w then (Inl PLCError, consume_fault w)
      else if 0 \<le> v \<and> v \<le> 65535 then
        (Inr (), (consume_fault w)\<lparr>regs := (regs w)(address - 400001 := v)\<rparr>)
      else (Inl StructError, consume_fault w))"

definition reset_plc_memory :: "unit handler" where
  "reset_plc_memory = do_all
     [write_plc_memory CONVEYOR_CONTROL_ADDRESS 0,
      write_plc_memory PROXIMITY_SENSOR_1_ADDRESS 0,
      write_plc_memory PROXIMITY_SENSOR_2_ADDRESS 0,
      write_plc_memory QR_SCANNER_ADDRESS 0,
      write_plc_memory PRODUCTION_COMPLETE_ADDRESS 0,
      write_plc_memory BOX_STATUS_INDICATOR_ADDRESS 0]"

subsection \<open>The session\<close>

text \<open>Reading \<open>session['production_data']\<close>.\<close>

definition get_production :: "production handler" where
  "get_production w = (case session w of None \<Rightarrow> (Inl KeyError, w) | Some p \<Rightarrow> (Inr p, w))"

text \<open>An update of the aliased dictionary, in place.\<close>

definition update_production :: "(production \<Rightarrow> production) \<Rightarrow> unit handler" where
  "update_production f w = (Inr (), w\<lparr>session := map_option f (session w)\<rparr>)"

text \<open>\<open>session['production_data'] = production\<close>\<close>

definition save_session :: "unit handler" where
  "save_session w = (Inr (), w\<lparr>modified := True\<rparr>)"

text \<open>\<open>session['production_data'] = {...}\<close> with a new dictionary.\<close>

definition set_session :: "production \<Rightarrow> unit handler" where
  "set_session p w = (Inr (), w\<lparr>session := Some p, modified := True\<rparr>)"

text \<open>\<open>session.pop('production_data')\<close>\<close>

definition pop_session :: "unit handler" where
  "pop_session w = (Inr (), w\<lparr>session := None, modified := True\<rparr>)"

text \<open>
  The end of a request, as Flask's cookie session does it: the session is written back
  only when it was marked modified; otherwise the next request finds the session of
  before, whatever was updated in place.
\<close>

definition end_request :: "world \<Rightarrow> world \<Rightarrow> world" where
  "end_request w0 w =
     w\<lparr>session := (if modified w then session w else session w0), modified := False\<rparr>"

subsection \<open>generate_qr_code\<close>

definition generate_qr_code :: "string \<Rightarrow> string \<Rightarrow> string \<Rightarrow> int \<Rightarrow> int \<Rightarrow> qr_stamp \<Rightarrow> qr_code" where
  "generate_qr_code btype br ptype qty box_index st =
     (let uid = take 3 btype @ ''-'' @ take 3 br @ ''-'' @ timestamp st @ ''-'' @ random_str st
      in \<lparr>unique_id = uid,
          qr_data = \<lparr>p_unique_id = uid, p_biscuit_type = btype, p_brand = br,
                     p_production_type = ptype, p_production_time = stamp_time st,
                     p_box_number = box_index + 1, p_total_boxes = qty\<rparr>,
          qr_image = ''static/qr_codes/'' @ uid @ ''.png''\<rparr>)"

subsection \<open>check_production_status\<close>

text \<open>
  What one poll takes from outside: whether \<open>print_qr_code_to_hp_printer\<close> returns
  \<open>True\<close>, the clock reading stored by the handler (\<open>start_time\<close>, \<open>end_time\<close>,
  \<open>sensor_check_start\<close>), and the later reading from which \<open>elapsed\<close> is computed.
\<close>

record poll_env =
  print_ok :: bool
  now_stamp :: real
  now_check :: real

definition default_response :: pydict where
  "default_response =
     [(''status'', JStr ''not_started''),
      (''message'', JStr ''No active production''),
      (''has_queued_box'', JBool False)]"

definition system_error :: reply where
  "system_error = ([(''error'', JStr ''System error''), (''status'', JStr ''error'')], 500)"

text \<open>\<open>production['qr_codes'][production['current_index']]\<close>\<close>

definition current_code :: "qr_code handler" where
  "current_code =
     bind_h get_production (\<lambda>p. lift_h (py_index (qr_codes p) (current_index p)))"

text \<open>The branch \<open>status == 'waiting_for_conveyor'\<close>.\<close>

definition waiting_branch :: "poll_env \<Rightarrow> int \<Rightarrow> pydict \<Rightarrow> pydict handler" where
  "waiting_branch env conveyor_status response =
     (if conveyor_status = 5 then
        seq_h (do_all
          [write_plc_memory PROXIMITY_SENSOR_1_ADDRESS 0,
           write_plc_memory PROXIMITY_SENSOR_2_ADDRESS 0,
           write_plc_memory QR_SCANNER_ADDRESS 0,
           write_plc_memory BOX_STATUS_INDICATOR_ADDRESS 0,
           update_production (\<lambda>p. p\<lparr>status := running, waiting_for_proximity_1 := True,
                                     queued_box := Some False, start_time := now_stamp env\<rparr>),
           save_session])
          (bind_h current_code (\<lambda>code.
             return_h (dict_update response
               [(''status'', JStr ''running''),
                (''current_qr_code'', JCode code),
                (''message'', JStr ''Conveyor started''),
                (''waiting_for_proximity_1'', JBool True)])))
      else
        return_h (dict_update response
          [(''status'', JStr ''waiting_for_conveyor''),
           (''message'', JStr ''Waiting for conveyor start signal'')]))"

text \<open>Completion, the first check of the branch \<open>status == 'running'\<close>.\<close>

definition complete_run :: "poll_env \<Rightarrow> pydict \<Rightarrow> pydict handler" where
  "complete_run env response =
     seq_h (do_all
       [update_production (\<lambda>p. p\<lparr>status := completed, end_time := Some (now_stamp env),
                                  waiting_for_proximity_1 := False,
                                  waiting_for_proximity_2 := False,
                                  waiting_for_qr := False\<rparr>),
        write_plc_memory PRODUCTION_COMPLETE_ADDRESS 1,
        write_plc_memory CONVEYOR_CONTROL_ADDRESS 0,
        save_session])
       (bind_h get_production (\<lambda>p.
          return_h (dict_update response
            [(''status'', JStr ''completed''),
             (''accepted_boxes'', JInt (accepted_boxes p)),
             (''rejected_boxes'', JInt (rejected_boxes p)),
             (''show_summary'', JBool True)])))"

text \<open>Automatic printing when proximity 1 is activated.\<close>

definition automatic_print :: "poll_env \<Rightarrow> bool \<Rightarrow> unit handler" where
  "automatic_print env proximity_1 =
     bind_h get_production (\<lambda>p.
       if waiting_for_proximity_1 p \<and> proximity_1 \<and> \<not> waiting_for_qr p then
         bind_h current_code (\<lambda>current_qr_code.
           if print_ok env then
             do_all
               [update_production (\<lambda>p. p\<lparr>waiting_for_proximity_1 := False,
                                         waiting_for_proximity_2 := True\<rparr>),
                save_session,
                write_plc_memory PROXIMITY_SENSOR_1_ADDRESS 0]
           else return_h ())
       else return_h ())"

text \<open>Queued box detection, \<open>elif\<close> proximity sensor 2; returns \<open>has_queued_box\<close>.\<close>

definition queued_or_proximity_2 :: "poll_env \<Rightarrow> bool \<Rightarrow> bool \<Rightarrow> bool handler" where
  "queued_or_proximity_2 env proximity_1 proximity_2 =
     bind_h get_production (\<lambda>p.
       let has_queued_box = (proximity_1 \<and> waiting_for_qr p) in
       seq_h
         (if has_queued_box \<and> queued_box p \<noteq> Some True then
            do_all [update_production (\<lambda>p. p\<lparr>queued_box := Some True\<rparr>), save_session]
          else if waiting_for_proximity_2 p \<and> proximity_2 then
            do_all
              [update_production (\<lambda>p. p\<lparr>waiting_for_proximity_2 := False,
                                        waiting_for_qr := True,
                                        sensor_check_start := Some (now_stamp env)\<rparr>),
               save_session,
               write_plc_memory PROXIMITY_SENSOR_2_ADDRESS 0]
          else return_h ())
         (return_h has_queued_box))"

text \<open>\<open>if qr_scanner:\<close> box accepted.\<close>

definition accept_box :: "pydict \<Rightarrow> pydict handler" where
  "accept_box response =
     bind_h (read_plc_memory ACCEPTED_BOXES_ADDRESS) (\<lambda>v.
       let accepted = v + 1 in
       seq_h (do_all
         [write_plc_memory ACCEPTED_BOXES_ADDRESS accepted,
          write_plc_memory BOX_STATUS_INDICATOR_ADDRESS 1,
          write_plc_memory QR_SCANNER_ADDRESS 0,
          update_production (\<lambda>p. p\<lparr>accepted_boxes := accepted,
                                    current_index := current_index p + 1,
                                    waiting_for_qr := False,
                                    queued_box := Some False\<rparr>),
          bind_h get_production (\<lambda>p.
            if queued_box p = Some True then
              do_all
                [update_production (\<lambda>p. p\<lparr>waiting_for_proximity_1 := False,
                                          waiting_for_proximity_2 := True\<rparr>),
                 write_plc_memory PROXIMITY_SENSOR_1_ADDRESS 0]
            else update_production (\<lambda>p. p\<lparr>waiting_for_proximity_1 := True\<rparr>)),
          save_session])
         (bind_h get_production (\<lambda>p.
          bind_h current_code (\<lambda>code.
            return_h (dict_update response
              [(''status'', JStr ''accepted''),
               (''accepted_boxes'', JInt accepted),
               (''current_qr_code'', JCode code),
               (''remaining'', JInt (quantity p - current_index p)),
               (''message'', JStr ''Box accepted'')])))))"

text \<open>\<open>elif elapsed >= 5:\<close> box rejected.\<close>

definition reject_box :: "pydict \<Rightarrow> pydict handler" where
  "reject_box response =
     seq_h (do_all
       [update_production (\<lambda>p. p\<lparr>rejected_boxes := rejected_boxes p + 1,
                                  status := stopped,
                                  queued_box := Some False\<rparr>),
        write_plc_memory BOX_STATUS_INDICATOR_ADDRESS 2,
        write_plc_memory CONVEYOR_CONTROL_ADDRESS 0,
        save_session])
       (bind_h get_production (\<lambda>p.
          return_h (dict_update response
            [(''status'', JStr ''stopped''),
             (''rejected_boxes'', JInt (rejected_boxes p)),
             (''remaining'', JInt (quantity p - current_index p)),
             (''can_restart'', JBool True)])))"

text \<open>The QR scanning section; \<open>datetime.fromisoformat(None)\<close> raises.\<close>

definition scan_phase :: "poll_env \<Rightarrow> bool \<Rightarrow> bool \<Rightarrow> bool \<Rightarrow> bool \<Rightarrow> pydict \<Rightarrow> pydict handler" where
  "scan_phase env proximity_1 proximity_2 qr_scanner has_queued_box response =
     bind_h get_production (\<lambda>p.
       if waiting_for_qr p then
         bind_h (case sensor_check_start p of
                   None \<Rightarrow> raise_h TypeError
                 | Some t \<Rightarrow> return_h (now_check env - t)) (\<lambda>elapsed.
           let time_left = max 0 (5 - elapsed) in
           if qr_scanner then accept_box response
           else if elapsed \<ge> 5 then reject_box response
           else
             bind_h current_code (\<lambda>code.
               return_h (dict_update response
                 [(''status'', JStr ''running''),
                  (''time_left'', JNum time_left),
                  (''current_qr_code'', JCode code),
                  (''message'', JStr ''Waiting for QR scan''),
                  (''has_queued_box'', JBool has_queued_box)])))
       else
         return_h (dict_update response
           [(''status'', JStr ''running''),
            (''proximity_1_active'', JBool proximity_1),
            (''proximity_2_active'', JBool proximity_2),
            (''waiting_for_proximity_1'', JBool (waiting_for_proximity_1 p)),
            (''waiting_for_proximity_2'', JBool (waiting_for_proximity_2 p)),
            (''waiting_for_qr'', JBool (waiting_for_qr p)),
            (''message'', JStr ''Production in progress''),
            (''has_queued_box'', JBool has_queued_box)]))"

text \<open>The branch \<open>status == 'running'\<close>.\<close>

definition running_branch :: "poll_env \<Rightarrow> pydict \<Rightarrow> pydict handler" where
  "running_branch env response =
     bind_h get_production (\<lambda>p.
       if current_index p \<ge> quantity p then complete_run env response
       else
         bind_h (read_plc_memory PROXIMITY_SENSOR_1_ADDRESS) (\<lambda>v1.
         bind_h (read_plc_memory PROXIMITY_SENSOR_2_ADDRESS) (\<lambda>v2.
         bind_h (read_plc_memory QR_SCANNER_ADDRESS) (\<lambda>v3.
           let proximity_1 = (v1 = 1); proximity_2 = (v2 = 1); qr_scanner = (v3 = 1) in
           seq_h (automatic_print env proximity_1)
             (bind_h (queued_or_proximity_2 env proximity_1 proximity_2) (\<lambda>has_queued_box.
                scan_phase env proximity_1 proximity_2 qr_scanner has_queued_box response))))))"

text \<open>
  The body of the \<open>try\<close>, once \<open>production_data\<close> is known to be in the session. The
  loop over \<open>required_fields\<close> checks the presence and the Python type of the keys; a
  value of type \<open>production\<close> passes it, so it is not a branch here.
\<close>

definition status_body :: "poll_env \<Rightarrow> pydict handler" where
  "status_body env =
     bind_h (read_plc_memory CONVEYOR_CONTROL_ADDRESS) (\<lambda>conveyor_status.
     bind_h get_production (\<lambda>p.
       case status p of
         waiting_for_conveyor \<Rightarrow> waiting_branch env conveyor_status default_response
       | running \<Rightarrow> running_branch env default_response
       | completed \<Rightarrow>
           return_h (dict_update default_response
             [(''status'', JStr ''completed''),
              (''accepted_boxes'', JInt (accepted_boxes p)),
              (''rejected_boxes'', JInt (rejected_boxes p)),
              (''show_summary'', JBool True)])
       | stopped \<Rightarrow>
           return_h (dict_update default_response
             [(''status'', JStr ''stopped''),
              (''rejected_boxes'', JInt (rejected_boxes p)),
              (''remaining'', JInt (quantity p - current_index p)),
              (''can_restart'', JBool True)])))"

definition check_production_status :: "poll_env \<Rightarrow> world \<Rightarrow> reply \<times> world" where
  "check_production_status env w =
     (case session w of
        None \<Rightarrow> ((default_response, 200), w)
      | Some _ \<Rightarrow>
          (case status_body env w of
             (Inr response, w') \<Rightarrow> ((response, 200), w')
           | (Inl e, w') \<Rightarrow> (system_error, w')))"

subsection \<open>start_production\<close>

text \<open>
  The JSON body of the request: a key may be missing. For \<open>custom_quantity\<close> the value
  kept is what \<open>int(data['custom_quantity'])\<close> makes of it.
\<close>

datatype int_parse = Parsed int | Unparsable

record start_data =
  d_biscuit_type :: "string option"
  d_brand :: "string option"
  d_production_type :: "string option"
  d_custom_quantity :: "int_parse option"

text \<open>Determine production quantity; \<open>Inl\<close> is the early \<open>return\<close> of the 400 reply.\<close>

definition determine_quantity :: "string \<Rightarrow> int_parse \<Rightarrow> (reply + int) handler" where
  "determine_quantity ptype cq =
     (if ptype = ''P1'' then return_h (Inr 10)
      else if ptype = ''P2'' then return_h (Inr 20)
      else (case cq of
              Unparsable \<Rightarrow> raise_h ValueError
            | Parsed n \<Rightarrow>
                if n \<le> 0 then return_h (Inl ([(''error'', JStr ''Quantity must be positive'')], 400))
                else return_h (Inr n)))"

definition new_production :: "string \<Rightarrow> string \<Rightarrow> string \<Rightarrow> int \<Rightarrow> qr_code list \<Rightarrow> real \<Rightarrow> production" where
  "new_production btype br ptype qty codes now =
     \<lparr>biscuit_type = btype, brand = br, production_type = ptype,
      quantity = qty, qr_codes = codes, current_index = 0,
      accepted_boxes = 0, rejected_boxes = 0,
      start_time = now, end_time = None,
      status = waiting_for_conveyor, sensor_check_start = None,
      waiting_for_proximity_1 = True, waiting_for_proximity_2 = False,
      waiting_for_qr = False, queued_box = None\<rparr>"

text \<open>\<open>stamps i\<close> is what the call of \<open>generate_qr_code\<close> for box \<open>i\<close> draws.\<close>

definition start_try :: "string \<Rightarrow> string \<Rightarrow> string \<Rightarrow> int_parse \<Rightarrow> (nat \<Rightarrow> qr_stamp) \<Rightarrow> real \<Rightarrow> reply handler" where
  "start_try btype br ptype cq stamps now =
     bind_h (determine_quantity ptype cq) (\<lambda>r.
       case r of
         Inl early \<Rightarrow> return_h early
       | Inr qty \<Rightarrow>
           let codes = map (\<lambda>i. generate_qr_code btype br ptype qty (int i) (stamps i))
                           [0..<nat qty] in
           seq_h (do_all
             [set_session (new_production btype br ptype qty codes now),
              reset_plc_memory,
              write_plc_memory ACCEPTED_BOXES_ADDRESS 0,
              write_plc_memory CONVEYOR_CONTROL_ADDRESS 1])
             (bind_h (lift_h (py_index codes 0)) (\<lambda>first.
                return_h ([(''message'', JStr ''Production started - waiting for conveyor''),
                           (''first_qr_code'', JCode first),
                           (''total_quantity'', JInt qty)], 200))))"

definition start_production :: "start_data \<Rightarrow> (nat \<Rightarrow> qr_stamp) \<Rightarrow> real \<Rightarrow> world \<Rightarrow> reply \<times> world" where
  "start_production data stamps now w =
     (case (d_biscuit_type data, d_brand data, d_production_type data, d_custom_quantity data) of
        (Some btype, Some br, Some ptype, Some cq) \<Rightarrow>
          (case start_try btype br ptype cq stamps now w of
             (Inr r, w') \<Rightarrow> (r, w')
           | (Inl e, w') \<Rightarrow> (([(''error'', JExn e)], 500), w'))
      | _ \<Rightarrow> (([(''error'', JStr ''Missing required fields'')], 400), w))"

subsection \<open>restart_conveyor\<close>

definition restart_try :: "qr_stamp \<Rightarrow> reply handler" where
  "restart_try st w =
     (case session w of
        None \<Rightarrow> (Inr ([(''error'', JStr ''No production to restart'')], 400), w)
      | Some production \<Rightarrow>
          if status production \<noteq> stopped then
            (Inr ([(''error'', JStr ''Production not in stopped state'')], 400), w)
          else
            (let new_qr_code = generate_qr_code (biscuit_type production) (brand production)
                   (production_type production) (quantity production)
                   (current_index production) st in
             bind_h (lift_h (py_store (qr_codes production) (current_index production) new_qr_code))
               (\<lambda>codes.
                 seq_h (do_all
                   [update_production (\<lambda>p. p\<lparr>qr_codes := codes\<rparr>),
                    write_plc_memory PROXIMITY_SENSOR_1_ADDRESS 0,
                    write_plc_memory PROXIMITY_SENSOR_2_ADDRESS 0,
                    write_plc_memory QR_SCANNER_ADDRESS 0,
                    write_plc_memory BOX_STATUS_INDICATOR_ADDRESS 0,
                    write_plc_memory CONVEYOR_CONTROL_ADDRESS 1,
                    update_production (\<lambda>p. p\<lparr>status := running,
                                              waiting_for_proximity_1 := True,
                                              waiting_for_proximity_2 := False,
                                              waiting_for_qr := False,
                                              sensor_check_start := None\<rparr>),
                    save_session])
                   (bind_h get_production (\<lambda>p.
                    bind_h current_code (\<lambda>code.
                      return_h ([(''message'', JStr ''Conveyor restarted''),
                                 (''current_qr_code'', JCode code),
                                 (''remaining'', JInt (quantity p - current_index p))], 200))))) w))"

definition restart_conveyor :: "qr_stamp \<Rightarrow> world \<Rightarrow> reply \<times> world" where
  "restart_conveyor st w =
     (case restart_try st w of
        (Inr r, w') \<Rightarrow> (r, w')
      | (Inl e, w') \<Rightarrow> (([(''error'', JExn e)], 500), w'))"

subsection \<open>reset_production and the simulation routes\<close>

definition reset_production :: "world \<Rightarrow> reply \<times> world" where
  "reset_production w =
     (case seq_h reset_plc_memory
             (\<lambda>w. if session w \<noteq> None then pop_session w else return_h () w) w of
        (Inr _, w') \<Rightarrow> (([(''message'', JStr ''Production reset successfully'')], 200), w')
      | (Inl e, w') \<Rightarrow> (([(''error'', JExn e)], 500), w'))"

definition simulate_conveyor_start :: "world \<Rightarrow> reply \<times> world" where
  "simulate_conveyor_start w =
     (case seq_h (write_plc_memory CONVEYOR_CONTROL_ADDRESS 5)
             (\<lambda>w. if session w \<noteq> None then
                     do_all [update_production (\<lambda>p. p\<lparr>status := running,
                                                       waiting_for_proximity_1 := True\<rparr>),
                             save_session] w
                   else return_h () w) w of
        (Inr _, w') \<Rightarrow> (([(''message'', JStr ''Conveyor started (simulated)'')], 200), w')
      | (Inl e, w') \<Rightarrow> (([(''error'', JExn e)], 500), w'))"

definition activate_scanner :: "world \<Rightarrow> reply \<times> world" where
  "activate_scanner w =
     (case write_plc_memory QR_SCANNER_ADDRESS 1 w of
        (Inr _, w') \<Rightarrow> (([(''message'', JStr ''QR scanner activated'')], 200), w')
      | (Inl e, w') \<Rightarrow> (([(''error'', JExn e)], 500), w'))"

subsection \<open>The system: requests and the line\<close>

text \<open>
  One request from its first line to the written-back session. \<open>LineWrite\<close> is any
  other writer of a register between two requests: the line itself (the sensors, the
  acknowledgement 5 on the conveyor register) and the thread that clears the indicator.
  \<open>BusFaults\<close> fixes which of the coming bus transactions fail. The routes
  \<open>production_summary\<close> and \<open>generate_pdf\<close> only read the session and the registers;
  they are not events.
\<close>

definition request :: "(world \<Rightarrow> reply \<times> world) \<Rightarrow> world \<Rightarrow> reply \<times> world" where
  "request h w = (case h (w\<lparr>modified := False\<rparr>) of (r, w') \<Rightarrow> (r, end_request w w'))"

datatype event =
    Start start_data "nat \<Rightarrow> qr_stamp" real
  | Poll poll_env
  | Restart qr_stamp
  | Reset
  | SimulateConveyorStart
  | ActivateScanner
  | LineWrite int int
  | BusFaults "bool list"

fun step :: "event \<Rightarrow> world \<Rightarrow> world" where
  "step (Start data stamps now) w = snd (request (start_production data stamps now) w)"
| "step (Poll env) w = snd (request (check_production_status env) w)"
| "step (Restart st) w = snd (request (restart_conveyor st) w)"
| "step Reset w = snd (request reset_production w)"
| "step SimulateConveyorStart w = snd (request simulate_conveyor_start w)"
| "step ActivateScanner w = snd (request activate_scanner w)"
| "step (LineWrite address v) w = w\<lparr>regs := (regs w)(address - 400001 := v)\<rparr>"
| "step (BusFaults fs) w = w\<lparr>faults := fs\<rparr>"

definition run :: "event list \<Rightarrow> world \<Rightarrow> world" where
  "run es w = foldl (\<lambda>w e. step e w) w es"

text \<open>The server before the first request: no session, no fault scheduled.\<close>

definition idle :: "(int \<Rightarrow> int) \<Rightarrow> world" where
  "idle r = \<lparr>regs = r, faults = [], session = None, modified = False\<rparr>"

subsection \<open>Sample runs\<close>

text \<open>Concrete inputs on which the theorems below are exercised.\<close>

definition demo_stamp :: qr_stamp where
  "demo_stamp = \<lparr>timestamp = ''20250101120000'', random_str = ''AB12'', stamp_time = 0\<rparr>"

definition demo_stamps :: "nat \<Rightarrow> qr_stamp" where
  "demo_stamps i = demo_stamp"

definition demo_data :: "int \<Rightarrow> start_data" where
  "demo_data n = \<lparr>d_biscuit_type = Some ''Cream'', d_brand = Some ''Acme'',
                  d_production_type = Some ''P3'', d_custom_quantity = Some (Parsed n)\<rparr>"

definition demo_env :: "real \<Rightarrow> poll_env" where
  "demo_env t = \<lparr>print_ok = True, now_stamp = t, now_check = t\<rparr>"

definition no_signal :: "int \<Rightarrow> int" where
  "no_signal a = 0"

definition demo_code :: "int \<Rightarrow> qr_code" where
  "demo_code i = generate_qr_code ''Cream'' ''Acme'' ''P3'' 2 i demo_stamp"

text \<open>A run of two boxes whose first box passed proximity 2 at time 0.\<close>

definition scanning_run :: production where
  "scanning_run =
     (new_production ''Cream'' ''Acme'' ''P3'' 2 [demo_code 0, demo_code 1] 0)
       \<lparr>status := running, waiting_for_proximity_1 := False, waiting_for_qr := True,
        sensor_check_start := Some 0, queued_box := Some False\<rparr>"

text \<open>The same run on its last box.\<close>

definition last_box_run :: production where
  "last_box_run = scanning_run\<lparr>current_index := 1, accepted_boxes := 1\<rparr>"

definition scanner_on :: "int \<Rightarrow> int" where
  "scanner_on a = (if a = 3 then 1 else if a = 4 then 1 else 0)"

definition plc_world :: "(int \<Rightarrow> int) \<Rightarrow> production option \<Rightarrow> world" where
  "plc_world r s = \<lparr>regs = r, faults = [], session = s, modified = False\<rparr>"

text \<open>
  Two boxes; the second reaches proximity 1 while the first is waiting for its scan,
  then the first is scanned.
\<close>

definition overlap_trace :: "event list" where
  "overlap_trace =
     [Start (demo_data 2) demo_stamps 0,
      LineWrite CONVEYOR_CONTROL_ADDRESS 5, Poll (demo_env 0),
      LineWrite PROXIMITY_SENSOR_1_ADDRESS 1, Poll (demo_env 1),
      LineWrite PROXIMITY_SENSOR_2_ADDRESS 1, Poll (demo_env 2),
      LineWrite PROXIMITY_SENSOR_1_ADDRESS 1, Poll (demo_env 3)]"

text \<open>The run of \<open>scanning_run\<close> after its first box was rejected.\<close>

definition stopped_run :: production where
  "stopped_run = scanning_run\<lparr>status := stopped, rejected_boxes := 1\<rparr>"

text \<open>A run of one box, from the start to its completion.\<close>

definition one_box_trace :: "event list" where
  "one_box_trace =
     [Start (demo_data 1) demo_stamps 0,
      LineWrite CONVEYOR_CONTROL_ADDRESS 5, Poll (demo_env 0),
      LineWrite PROXIMITY_SENSOR_1_ADDRESS 1, Poll (demo_env 1),
      LineWrite PROXIMITY_SENSOR_2_ADDRESS 1, Poll (demo_env 2),
      LineWrite QR_SCANNER_ADDRESS 1, Poll (demo_env 3),
      Poll (demo_env 4)]"

text \<open>A world whose coming bus transactions fail as \<open>fs\<close> says.\<close>

definition faulty_world :: "bool list \<Rightarrow> (int \<Rightarrow> int) \<Rightarrow> production option \<Rightarrow> world" where
  "faulty_world fs r s = \<lparr>regs = r, faults = fs, session = s, modified = False\<rparr>"

subsection \<open>Assertions on the session\<close>

text \<open>
  \<open>stays P m Q E\<close>: started with a session that satisfies \<open>P\<close>, the handler \<open>m\<close> leaves
  a session that satisfies \<open>Q a\<close> when it returns \<open>a\<close>, and \<open>E\<close> when it raises. The
  session meant is the dictionary as updated in place, whether or not it was marked
  modified.
\<close>

definition stays ::
  "(production option \<Rightarrow> bool) \<Rightarrow> 'a handler \<Rightarrow> ('a \<Rightarrow> production option \<Rightarrow> bool)
     \<Rightarrow> (production option \<Rightarrow> bool) \<Rightarrow> bool" where
  "stays P m Q E =
     (\<forall>w. P (session w) \<longrightarrow>
        (case m w of (Inl e, w') \<Rightarrow> E (session w') | (Inr a, w') \<Rightarrow> Q a (session w')))"

text \<open>
  A well-formed run: as many codes as boxes, the index within \<open>0 .. quantity\<close>, at
  \<open>quantity\<close> once completed and below it while stopped.
\<close>

definition wf_run :: "production \<Rightarrow> bool" where
  "wf_run p =
     (0 < quantity p \<and> int (length (qr_codes p)) = quantity p
      \<and> 0 \<le> current_index p \<and> current_index p \<le> quantity p
      \<and> (status p = completed \<longrightarrow> current_index p = quantity p)
      \<and> (status p = stopped \<longrightarrow> current_index p < quantity p))"

definition wf_session :: "production option \<Rightarrow> bool" where
  "wf_session s = (case s of None \<Rightarrow> True | Some p \<Rightarrow> wf_run p)"

text \<open>A running run with a box still to come.\<close>

definition live :: "production option \<Rightarrow> bool" where
  "live s =
     (case s of
        None \<Rightarrow> False
      | Some p \<Rightarrow> wf_run p \<and> status p = running \<and> current_index p < quantity p)"

text \<open>
  An event that neither schedules a bus fault nor writes the accepted counter from
  outside the application.
\<close>

fun benign :: "event \<Rightarrow> bool" where
  "benign (LineWrite address v) = (address \<noteq> ACCEPTED_BOXES_ADDRESS)"
| "benign (BusFaults fs) = (fs = [])"
| "benign e = True"

text \<open>
  The bus has no fault to come, and the accepted counter, in the run and on the bus, is
  the number of boxes passed.
\<close>

definition counted :: "world \<Rightarrow> bool" where
  "counted w =
     (faults w = [] \<and>
      (case session w of
         None \<Rightarrow> True
       | Some p \<Rightarrow> wf_run p \<and> accepted_boxes p = current_index p
                   \<and> regs w (ACCEPTED_BOXES_ADDRESS - 400001) = current_index p))"

subsection \<open>Assertions on the world\<close>

text \<open>\<open>holds\<close> is \<open>stays\<close> for assertions that also read the registers, the faults to
  come and the flag \<open>modified\<close>.\<close>

definition holds ::
  "(world \<Rightarrow> bool) \<Rightarrow> 'a handler \<Rightarrow> ('a \<Rightarrow> world \<Rightarrow> bool) \<Rightarrow> (world \<Rightarrow> bool) \<Rightarrow> bool" where
  "holds P m Q E =
     (\<forall>w. P w \<longrightarrow> (case m w of (Inl e, w') \<Rightarrow> E w' | (Inr a, w') \<Rightarrow> Q a w'))"

text \<open>
  Inside a request that found the session \<open>s0\<close>: the world is \<open>counted\<close>, and a session
  that differs from \<open>s0\<close> has been marked modified, so that it will be written back.
\<close>

definition counted_from :: "production option \<Rightarrow> world \<Rightarrow> bool" where
  "counted_from s0 w = (counted w \<and> (modified w \<or> session w = s0))"

definition live_from :: "production option \<Rightarrow> world \<Rightarrow> bool" where
  "live_from s0 w = (counted_from s0 w \<and> live (session w))"

subsection \<open>Sample runs with bus faults\<close>

text \<open>
  A run of one box in which the write of the indicator fails after the accepted counter
  was written: the poll is answered with the 500, nothing is recorded, the scanner
  register stays at 1, and the next poll accepts the same box again.
\<close>

definition double_count_trace :: "event list" where
  "double_count_trace =
     [Start (demo_data 1) demo_stamps 0,
      LineWrite CONVEYOR_CONTROL_ADDRESS 5, Poll (demo_env 0),
      LineWrite PROXIMITY_SENSOR_1_ADDRESS 1, Poll (demo_env 1),
      LineWrite PROXIMITY_SENSOR_2_ADDRESS 1, Poll (demo_env 2),
      LineWrite QR_SCANNER_ADDRESS 1,
      BusFaults [False, False, False, False, False, False, True], Poll (demo_env 3),
      Poll (demo_env 4),
      Poll (demo_env 5)]"

text \<open>Two boxes; the first has passed proximity 2 at time 2 and waits for its scan.\<close>

definition scan_wait_trace :: "event list" where
  "scan_wait_trace =
     [Start (demo_data 2) demo_stamps 0,
      LineWrite CONVEYOR_CONTROL_ADDRESS 5, Poll (demo_env 0),
      LineWrite PROXIMITY_SENSOR_1_ADDRESS 1, Poll (demo_env 1),
      LineWrite PROXIMITY_SENSOR_2_ADDRESS 1, Poll (demo_env 2)]"


subsection \<open>After a start\<close>

text \<open>
  The number of boxes that a start request asks for: 10 for the production type P1, 20
  for P2, and otherwise the custom quantity; none when that is not a positive number.
\<close>

definition requested_quantity :: "string \<Rightarrow> int_parse \<Rightarrow> int option" where
  "requested_quantity ptype cq =
     (if ptype = ''P1'' then Some 10
      else if ptype = ''P2'' then Some 20
      else (case cq of Parsed n \<Rightarrow> (if 0 < n then Some n else None) | Unparsable \<Rightarrow> None))"

text \<open>The session holds the run \<open>p\<close> and is marked to be written back.\<close>

definition started_with :: "production \<Rightarrow> world \<Rightarrow> bool" where
  "started_with p w = (modified w \<and> session w = Some p)"

subsection \<open>Sample runs at the accepted counter\<close>

text \<open>
  Two boxes; the first waits for its scan since time 2 and is scanned, and the poll at
  time 3 fails on the write of the indicator, after the write of the accepted counter.
\<close>

definition recount_trace :: "event list" where
  "recount_trace =
     [Start (demo_data 2) demo_stamps 0,
      LineWrite CONVEYOR_CONTROL_ADDRESS 5, Poll (demo_env 0),
      LineWrite PROXIMITY_SENSOR_1_ADDRESS 1, Poll (demo_env 1),
      LineWrite PROXIMITY_SENSOR_2_ADDRESS 1, Poll (demo_env 2),
      LineWrite QR_SCANNER_ADDRESS 1,
      BusFaults [False, False, False, False, False, False, True], Poll (demo_env 3)]"

text \<open>The scanner register at 1 and the accepted register at its largest value.\<close>

definition full_counter :: "int \<Rightarrow> int" where
  "full_counter a = (if a = 3 then 1 else if a = 4 then 65535 else 0)"

subsection \<open>Bus faults within a request\<close>




subsection \<open>The transitions of a poll\<close>

text \<open>The run after the update of \<open>automatic_print\<close>.\<close>

definition printed_run :: "poll_env \<Rightarrow> bool \<Rightarrow> production \<Rightarrow> production" where
  "printed_run env proximity_1 p =
     (if waiting_for_proximity_1 p \<and> proximity_1 \<and> \<not> waiting_for_qr p \<and> print_ok env then
        p\<lparr>waiting_for_proximity_1 := False, waiting_for_proximity_2 := True\<rparr>
      else p)"

text \<open>The run after the update of \<open>queued_or_proximity_2\<close>.\<close>

definition sensed_run :: "poll_env \<Rightarrow> bool \<Rightarrow> bool \<Rightarrow> production \<Rightarrow> production" where
  "sensed_run env proximity_1 proximity_2 p =
     (if proximity_1 \<and> waiting_for_qr p \<and> queued_box p \<noteq> Some True then
        p\<lparr>queued_box := Some True\<rparr>
      else if waiting_for_proximity_2 p \<and> proximity_2 then
        p\<lparr>waiting_for_proximity_2 := False, waiting_for_qr := True,
          sensor_check_start := Some (now_stamp env)\<rparr>
      else p)"

text \<open>
  The scan section accepts or rejects: after the two updates above the run waits for
  the scan, \<open>sensor_check_start\<close> is set, and the scanner sample is active or 5 seconds
  have passed.
\<close>

definition scan_resolves :: "poll_env \<Rightarrow> bool \<Rightarrow> bool \<Rightarrow> bool \<Rightarrow> production \<Rightarrow> bool" where
  "scan_resolves env proximity_1 proximity_2 qr_scanner p =
     (let q = sensed_run env proximity_1 proximity_2 (printed_run env proximity_1 p) in
      waiting_for_qr q
      \<and> (case sensor_check_start q of
           None \<Rightarrow> False
         | Some t \<Rightarrow> qr_scanner \<or> 5 \<le> now_check env - t))"

text \<open>
  The poll takes one of the branches that assign \<open>status\<close> or \<open>current_index\<close>: the
  acknowledgement 5 of the line, completion, acceptance or rejection.
\<close>

definition transition_enabled :: "poll_env \<Rightarrow> world \<Rightarrow> production \<Rightarrow> bool" where
  "transition_enabled env w p =
     (case status p of
        waiting_for_conveyor \<Rightarrow> regs w (CONVEYOR_CONTROL_ADDRESS - 400001) = 5
      | running \<Rightarrow>
          quantity p \<le> current_index p
          \<or> scan_resolves env (regs w (PROXIMITY_SENSOR_1_ADDRESS - 400001) = 1)
               (regs w (PROXIMITY_SENSOR_2_ADDRESS - 400001) = 1)
               (regs w (QR_SCANNER_ADDRESS - 400001) = 1) p
      | completed \<Rightarrow> False
      | stopped \<Rightarrow> False)"

text \<open>A session whose run has the \<open>status\<close> and the \<open>current_index\<close> of \<open>p\<close>.\<close>

definition unmoved :: "production \<Rightarrow> production option \<Rightarrow> bool" where
  "unmoved p s =
     (map_option status s = Some (status p)
      \<and> map_option current_index s = Some (current_index p))"

text \<open>Proximity 1 at 1, every other register at 0.\<close>

definition proximity_1_on :: "int \<Rightarrow> int" where
  "proximity_1_on a = (if a = 1 then 1 else 0)"

section \<open>Properties\<close>

subsection \<open>A bus without faults\<close>

lemma quiet_bus:
  "faults w = [] \<Longrightarrow> consume_fault w = w"
  "faults w = [] \<Longrightarrow> \<not> next_fault w"
  by (simp_all add: consume_fault_def next_fault_def)

lemma read_ok:
  "faults w = [] \<Longrightarrow> read_plc_memory a w = (Inr (regs w (a - 400001)), w)"
  by (simp add: read_plc_memory_def quiet_bus)

lemma write_ok:
  "faults w = [] \<Longrightarrow>
   write_plc_memory a v w =
     (if 0 \<le> v \<and> v \<le> 65535 then (Inr (), w\<lparr>regs := (regs w)(a - 400001 := v)\<rparr>)
      else (Inl StructError, w))"
  by (simp add: write_plc_memory_def quiet_bus)

lemmas addr_defs =
  CONVEYOR_CONTROL_ADDRESS_def PROXIMITY_SENSOR_1_ADDRESS_def
  PROXIMITY_SENSOR_2_ADDRESS_def QR_SCANNER_ADDRESS_def ACCEPTED_BOXES_ADDRESS_def
  PRODUCTION_COMPLETE_ADDRESS_def BOX_STATUS_INDICATOR_ADDRESS_def

lemmas h_defs =
  bind_h_def seq_h_def return_h_def raise_h_def lift_h_def get_production_def
  update_production_def save_session_def set_session_def pop_session_def current_code_def

lemmas tick_defs =
  check_production_status_def status_body_def running_branch_def automatic_print_def
  queued_or_proximity_2_def scan_phase_def accept_box_def reject_box_def
  complete_run_def waiting_branch_def

lemmas demo_defs =
  demo_stamp_def demo_stamps_def demo_data_def demo_env_def no_signal_def demo_code_def
  scanning_run_def last_box_run_def scanner_on_def plc_world_def new_production_def

subsection \<open>Rejection on timeout\<close>

lemma poll_reject:
  assumes "session w = Some p" "status p = running" "current_index p < quantity p"
    "waiting_for_qr p" "\<not> waiting_for_proximity_2 p" "sensor_check_start p = Some t"
    "5 \<le> now_check env - t" "regs w (QR_SCANNER_ADDRESS - 400001) \<noteq> 1" "faults w = []"
  shows "snd (request (check_production_status env) w) =
     w\<lparr>regs := (regs w)(BOX_STATUS_INDICATOR_ADDRESS - 400001 := 2,
                        CONVEYOR_CONTROL_ADDRESS - 400001 := 0),
       session := Some (p\<lparr>rejected_boxes := rejected_boxes p + 1, status := stopped,
                          queued_box := Some False\<rparr>),
       modified := False\<rparr>"
  using assms
  by (simp add: request_def end_request_def tick_defs h_defs read_ok write_ok addr_defs Let_def)

text \<open>
  C2. A poll of a running run that is waiting for the scan, with the scanner register
  not at 1 and at least 5 seconds since \<open>sensor_check_start\<close>, on a bus without
  faults: \<open>rejected_boxes\<close> grows by one, the indicator register is written with 2
  (rejected), the conveyor register with 0, the status becomes \<open>stopped\<close> and
  \<open>current_index\<close> keeps its value.
\<close>

theorem reject_after_scan_window:
  assumes "session w = Some p" "status p = running" "current_index p < quantity p"
    "waiting_for_qr p" "\<not> waiting_for_proximity_2 p" "sensor_check_start p = Some t"
    "5 \<le> now_check env - t" "regs w (QR_SCANNER_ADDRESS - 400001) \<noteq> 1" "faults w = []"
  shows "map_option rejected_boxes (session (snd (request (check_production_status env) w)))
           = Some (rejected_boxes p + 1)
       \<and> regs (snd (request (check_production_status env) w))
           (BOX_STATUS_INDICATOR_ADDRESS - 400001) = 2
       \<and> regs (snd (request (check_production_status env) w))
           (CONVEYOR_CONTROL_ADDRESS - 400001) = 0
       \<and> map_option status (session (snd (request (check_production_status env) w)))
           = Some stopped
       \<and> map_option current_index (session (snd (request (check_production_status env) w)))
           = Some (current_index p)"
  by (simp add: poll_reject [OF assms] addr_defs)

theorem reject_after_scan_window_witness:
  "map_option rejected_boxes (session (snd (request (check_production_status (demo_env 5))
       (plc_world no_signal (Some scanning_run))))) = Some (rejected_boxes scanning_run + 1)
   \<and> regs (snd (request (check_production_status (demo_env 5))
       (plc_world no_signal (Some scanning_run)))) (BOX_STATUS_INDICATOR_ADDRESS - 400001) = 2
   \<and> regs (snd (request (check_production_status (demo_env 5))
       (plc_world no_signal (Some scanning_run)))) (CONVEYOR_CONTROL_ADDRESS - 400001) = 0
   \<and> map_option status (session (snd (request (check_production_status (demo_env 5))
       (plc_world no_signal (Some scanning_run))))) = Some stopped
   \<and> map_option current_index (session (snd (request (check_production_status (demo_env 5))
       (plc_world no_signal (Some scanning_run))))) = Some (current_index scanning_run)"
  by (rule reject_after_scan_window [where t = 0]) (simp_all add: demo_defs addr_defs)

subsection \<open>Acceptance\<close>

lemma poll_accept:
  assumes "session w = Some p" "status p = running" "current_index p < quantity p"
    "waiting_for_qr p" "\<not> waiting_for_proximity_2 p" "sensor_check_start p = Some t"
    "regs w (QR_SCANNER_ADDRESS - 400001) = 1" "faults w = []"
    "0 \<le> regs w (ACCEPTED_BOXES_ADDRESS - 400001)"
    "regs w (ACCEPTED_BOXES_ADDRESS - 400001) < 65535"
  shows "snd (request (check_production_status env) w) =
     w\<lparr>regs := (regs w)
          (ACCEPTED_BOXES_ADDRESS - 400001 := regs w (ACCEPTED_BOXES_ADDRESS - 400001) + 1,
           BOX_STATUS_INDICATOR_ADDRESS - 400001 := 1,
           QR_SCANNER_ADDRESS - 400001 := 0),
       session := Some (p\<lparr>accepted_boxes := regs w (ACCEPTED_BOXES_ADDRESS - 400001) + 1,
                          current_index := current_index p + 1,
                          waiting_for_qr := False, queued_box := Some False,
                          waiting_for_proximity_1 := True\<rparr>),
       modified := False\<rparr>"
  using assms
  by (simp add: request_def end_request_def tick_defs h_defs read_ok write_ok addr_defs Let_def
      split: sum.splits)

lemma poll_accept_last_reply:
  assumes "session w = Some p" "status p = running" "current_index p + 1 = quantity p"
    "int (length (qr_codes p)) = quantity p"
    "waiting_for_qr p" "\<not> waiting_for_proximity_2 p" "sensor_check_start p = Some t"
    "regs w (QR_SCANNER_ADDRESS - 400001) = 1" "faults w = []"
    "0 \<le> regs w (ACCEPTED_BOXES_ADDRESS - 400001)"
    "regs w (ACCEPTED_BOXES_ADDRESS - 400001) < 65535"
  shows "fst (request (check_production_status env) w) = system_error"
  using assms
  by (simp add: request_def end_request_def tick_defs h_defs read_ok write_ok addr_defs Let_def
      py_index_def split: sum.splits)

lemma poll_complete:
  assumes "session w = Some p" "status p = running" "quantity p \<le> current_index p"
    "faults w = []"
  shows "request (check_production_status env) w =
     ((dict_update default_response
         [(''status'', JStr ''completed''),
          (''accepted_boxes'', JInt (accepted_boxes p)),
          (''rejected_boxes'', JInt (rejected_boxes p)),
          (''show_summary'', JBool True)], 200),
      w\<lparr>regs := (regs w)(PRODUCTION_COMPLETE_ADDRESS - 400001 := 1,
                         CONVEYOR_CONTROL_ADDRESS - 400001 := 0),
        session := Some (p\<lparr>status := completed, end_time := Some (now_stamp env),
                           waiting_for_proximity_1 := False,
                           waiting_for_proximity_2 := False,
                           waiting_for_qr := False\<rparr>),
        modified := False\<rparr>)"
  using assms
  by (simp add: request_def end_request_def tick_defs h_defs read_ok write_ok addr_defs Let_def)

lemma poll_accept_refused:
  assumes "session w = Some p" "status p = running" "current_index p < quantity p"
    "waiting_for_qr p" "\<not> waiting_for_proximity_2 p" "sensor_check_start p = Some t"
    "regs w (QR_SCANNER_ADDRESS - 400001) = 1" "faults w = []"
    "regs w (ACCEPTED_BOXES_ADDRESS - 400001) = 65535"
  shows "fst (request (check_production_status env) w) = system_error
       \<and> map_option current_index (session (snd (request (check_production_status env) w)))
           = Some (current_index p)
       \<and> map_option accepted_boxes (session (snd (request (check_production_status env) w)))
           = Some (accepted_boxes p)
       \<and> map_option rejected_boxes (session (snd (request (check_production_status env) w)))
           = Some (rejected_boxes p)
       \<and> map_option status (session (snd (request (check_production_status env) w)))
           = Some running
       \<and> regs (snd (request (check_production_status env) w)) = regs w"
  using assms
  by (simp add: request_def end_request_def tick_defs h_defs read_ok write_ok addr_defs Let_def)

text \<open>
  C4, as the claim states it, fails on the accepted count. The count of the run is not
  incremented: it is overwritten with the accepted register of the bus plus one. On
  \<open>recount_trace\<close> the box was already counted on the bus by a poll that then failed,
  so the run still has \<open>accepted_boxes = 0\<close> and the register holds 1; the poll that
  accepts the box 7 seconds after proximity 2 leaves \<open>accepted_boxes = 2\<close>.
\<close>

theorem accept_recounts_from_bus:
  "map_option accepted_boxes (session (run recount_trace (idle no_signal))) = Some 0
   \<and> map_option sensor_check_start (session (run recount_trace (idle no_signal)))
        = Some (Some 2)
   \<and> regs (run recount_trace (idle no_signal)) (QR_SCANNER_ADDRESS - 400001) = 1
   \<and> map_option current_index (session (snd (request (check_production_status (demo_env 9))
        (run recount_trace (idle no_signal))))) = Some 1
   \<and> map_option accepted_boxes (session (snd (request (check_production_status (demo_env 9))
        (run recount_trace (idle no_signal))))) = Some 2
   \<and> map_option accepted_boxes (session (snd (request (check_production_status (demo_env 9))
        (run recount_trace (idle no_signal))))) \<noteq> Some (0 + 1)"
  by code_simp

text \<open>
  C4, amended. In the scan section the test \<open>if qr_scanner\<close> comes before
  \<open>elif elapsed >= 5\<close>: a poll of a running run that is waiting for the scan and samples
  the scanner register at 1, on a bus without faults, never rejects, whatever
  \<open>now_check env - t\<close> is, so also when it is 5 or more. With the accepted register below
  65535 the box is accepted: the register grows by one, \<open>accepted_boxes\<close> becomes the new
  value of the register (one more than before when it was equal to the register),
  \<open>current_index\<close> advances and the run keeps running. With the register at 65535 the
  write of 65536 is refused: the reply is the 500 and the box is neither accepted nor
  rejected.
\<close>

theorem scan_checked_before_timeout:
  assumes "session w = Some p" "status p = running" "current_index p < quantity p"
    "waiting_for_qr p" "\<not> waiting_for_proximity_2 p" "sensor_check_start p = Some t"
    "regs w (QR_SCANNER_ADDRESS - 400001) = 1" "faults w = []"
  shows "(0 \<le> regs w (ACCEPTED_BOXES_ADDRESS - 400001)
          \<and> regs w (ACCEPTED_BOXES_ADDRESS - 400001) < 65535 \<longrightarrow>
          regs (snd (request (check_production_status env) w)) (ACCEPTED_BOXES_ADDRESS - 400001)
            = regs w (ACCEPTED_BOXES_ADDRESS - 400001) + 1
          \<and> map_option accepted_boxes (session (snd (request (check_production_status env) w)))
            = Some (regs w (ACCEPTED_BOXES_ADDRESS - 400001) + 1)
          \<and> (accepted_boxes p = regs w (ACCEPTED_BOXES_ADDRESS - 400001) \<longrightarrow>
               map_option accepted_boxes
                 (session (snd (request (check_production_status env) w)))
               = Some (accepted_boxes p + 1))
          \<and> map_option current_index (session (snd (request (check_production_status env) w)))
            = Some (current_index p + 1)
          \<and> map_option rejected_boxes (session (snd (request (check_production_status env) w)))
            = Some (rejected_boxes p)
          \<and> map_option status (session (snd (request (check_production_status env) w)))
            = Some running
          \<and> regs (snd (request (check_production_status env) w))
            (BOX_STATUS_INDICATOR_ADDRESS - 400001) = 1)
       \<and> (regs w (ACCEPTED_BOXES_ADDRESS - 400001) = 65535 \<longrightarrow>
          fst (request (check_production_status env) w) = system_error
          \<and> map_option current_index (session (snd (request (check_production_status env) w)))
            = Some (current_index p)
          \<and> map_option accepted_boxes (session (snd (request (check_production_status env) w)))
            = Some (accepted_boxes p)
          \<and> map_option rejected_boxes (session (snd (request (check_production_status env) w)))
            = Some (rejected_boxes p)
          \<and> map_option status (session (snd (request (check_production_status env) w)))
            = Some running)"
proof (intro conjI impI)
  assume full: "regs w (ACCEPTED_BOXES_ADDRESS - 400001) = 65535"
  note r = poll_accept_refused [OF assms full, of env]
  show "fst (request (check_production_status env) w) = system_error"
    using r by simp
  show "map_option current_index (session (snd (request (check_production_status env) w)))
          = Some (current_index p)"
    using r by simp
  show "map_option accepted_boxes (session (snd (request (check_production_status env) w)))
          = Some (accepted_boxes p)"
    using r by simp
  show "map_option rejected_boxes (session (snd (request (check_production_status env) w)))
          = Some (rejected_boxes p)"
    using r by simp
  show "map_option status (session (snd (request (check_production_status env) w)))
          = Some running"
    using r by simp
qed (use assms(2) in \<open>simp_all add: poll_accept [OF assms] addr_defs\<close>)

text \<open>The witness polls 7 seconds after proximity 2, past the window of 5.\<close>

theorem scan_checked_before_timeout_witness:
  "5 \<le> now_check (demo_env 7) - 0
   \<and> regs (snd (request (check_production_status (demo_env 7))
        (plc_world scanner_on (Some last_box_run)))) (ACCEPTED_BOXES_ADDRESS - 400001) = 2
   \<and> map_option accepted_boxes (session (snd (request (check_production_status (demo_env 7))
        (plc_world scanner_on (Some last_box_run)))))
        = Some (accepted_boxes last_box_run + 1)
   \<and> map_option current_index (session (snd (request (check_production_status (demo_env 7))
        (plc_world scanner_on (Some last_box_run))))) = Some (current_index last_box_run + 1)
   \<and> map_option rejected_boxes (session (snd (request (check_production_status (demo_env 7))
        (plc_world scanner_on (Some last_box_run))))) = Some (rejected_boxes last_box_run)
   \<and> map_option status (session (snd (request (check_production_status (demo_env 7))
        (plc_world scanner_on (Some last_box_run))))) = Some running
   \<and> fst (request (check_production_status (demo_env 7))
        (plc_world full_counter (Some scanning_run))) = system_error
   \<and> map_option current_index (session (snd (request (check_production_status (demo_env 7))
        (plc_world full_counter (Some scanning_run))))) = Some (current_index scanning_run)
   \<and> map_option status (session (snd (request (check_production_status (demo_env 7))
        (plc_world full_counter (Some scanning_run))))) = Some running"
proof -
  have "5 \<le> now_check (demo_env 7) - 0"
    by (simp add: demo_env_def)
  moreover note scan_checked_before_timeout
    [where w = "plc_world scanner_on (Some last_box_run)" and p = last_box_run and t = 0
       and env = "demo_env 7", THEN conjunct1]
    scan_checked_before_timeout
    [where w = "plc_world full_counter (Some scanning_run)" and p = scanning_run and t = 0
       and env = "demo_env 7", THEN conjunct2]
  ultimately show ?thesis
    by (simp add: demo_defs full_counter_def addr_defs)
qed

text \<open>
  C10. The poll that accepts the last box of a run (\<open>current_index + 1 = quantity\<close>,
  with as many codes as boxes, the accepted register below 65535 so that the acceptance
  can be written) writes the session back with \<open>current_index = quantity\<close> and then
  reads \<open>qr_codes[current_index]\<close> for its reply: the index is out of range, so the
  reply is the 500 of the \<open>except\<close> clause although the acceptance is recorded and the
  run is still \<open>running\<close>. The poll after it, whatever it samples, finds
  \<open>current_index >= quantity\<close> and completes the run.
\<close>

theorem last_accept_replies_error:
  assumes "session w = Some p" "status p = running" "current_index p + 1 = quantity p"
    "int (length (qr_codes p)) = quantity p"
    "waiting_for_qr p" "\<not> waiting_for_proximity_2 p" "sensor_check_start p = Some t"
    "regs w (QR_SCANNER_ADDRESS - 400001) = 1" "faults w = []"
    "0 \<le> regs w (ACCEPTED_BOXES_ADDRESS - 400001)"
    "regs w (ACCEPTED_BOXES_ADDRESS - 400001) < 65535"
  shows "fst (request (check_production_status env) w) = system_error
       \<and> map_option current_index (session (snd (request (check_production_status env) w)))
           = Some (quantity p)
       \<and> map_option accepted_boxes (session (snd (request (check_production_status env) w)))
           = Some (regs w (ACCEPTED_BOXES_ADDRESS - 400001) + 1)
       \<and> map_option status (session (snd (request (check_production_status env) w)))
           = Some running
       \<and> py_index (qr_codes p) (quantity p) = Inl IndexError
       \<and> snd (fst (request (check_production_status env')
                      (snd (request (check_production_status env) w)))) = 200
       \<and> map_option status (session (snd (request (check_production_status env')
                      (snd (request (check_production_status env) w))))) = Some completed"
proof -
  have lt: "current_index p < quantity p"
    using assms(3) by simp
  note acc = poll_accept [OF assms(1,2) lt assms(5-11), of env]
  have idx: "py_index (qr_codes p) (quantity p) = Inl IndexError"
    using assms(4) by (simp add: py_index_def)
  show ?thesis
    using assms(3) idx
    by (simp add: poll_accept_last_reply [OF assms] acc
        poll_complete [where p = "p\<lparr>accepted_boxes := regs w (ACCEPTED_BOXES_ADDRESS - 400001) + 1,
                          current_index := current_index p + 1,
                          waiting_for_qr := False, queued_box := Some False,
                          waiting_for_proximity_1 := True\<rparr>"] assms(2) assms(9))
qed

theorem last_accept_replies_error_witness:
  "fst (request (check_production_status (demo_env 1))
          (plc_world scanner_on (Some last_box_run))) = system_error
   \<and> map_option current_index (session (snd (request (check_production_status (demo_env 1))
          (plc_world scanner_on (Some last_box_run))))) = Some 2
   \<and> map_option status (session (snd (request (check_production_status (demo_env 1))
          (plc_world scanner_on (Some last_box_run))))) = Some running
   \<and> map_option status (session (snd (request (check_production_status (demo_env 2))
          (snd (request (check_production_status (demo_env 1))
             (plc_world scanner_on (Some last_box_run))))))) = Some completed"
proof -
  note last_accept_replies_error
    [where w = "plc_world scanner_on (Some last_box_run)" and p = last_box_run and t = 0
       and env = "demo_env 1" and env' = "demo_env 2"]
  moreover have "quantity last_box_run = 2"
    by (simp add: demo_defs)
  ultimately show ?thesis
    by (simp add: demo_defs addr_defs)
qed

subsection \<open>The queued box\<close>

text \<open>
  C5. On \<open>overlap_trace\<close> the second box reaches proximity 1 while the first waits for
  its scan: the poll latches \<open>queued_box\<close> and prints nothing (the run still waits for
  the scan of box 0). When the scanner then accepts box 0, the handler writes
  \<open>queued_box = False\<close> into the run before it tests \<open>production.get('queued_box')\<close>,
  so the branch for the queued box is never taken: the run waits for proximity 1 again
  and not for proximity 2, and the proximity 1 register is left at 1.
\<close>

theorem queued_box_not_consumed:
  "map_option queued_box (session (run overlap_trace (idle no_signal))) = Some (Some True)
   \<and> map_option waiting_for_qr (session (run overlap_trace (idle no_signal))) = Some True
   \<and> map_option current_index (session (run overlap_trace (idle no_signal))) = Some 0
   \<and> map_option current_index (session (run
        (overlap_trace @ [LineWrite QR_SCANNER_ADDRESS 1, Poll (demo_env 4)])
        (idle no_signal))) = Some 1
   \<and> map_option queued_box (session (run
        (overlap_trace @ [LineWrite QR_SCANNER_ADDRESS 1, Poll (demo_env 4)])
        (idle no_signal))) = Some (Some False)
   \<and> map_option waiting_for_proximity_1 (session (run
        (overlap_trace @ [LineWrite QR_SCANNER_ADDRESS 1, Poll (demo_env 4)])
        (idle no_signal))) = Some True
   \<and> map_option waiting_for_proximity_2 (session (run
        (overlap_trace @ [LineWrite QR_SCANNER_ADDRESS 1, Poll (demo_env 4)])
        (idle no_signal))) = Some False
   \<and> regs (run (overlap_trace @ [LineWrite QR_SCANNER_ADDRESS 1, Poll (demo_env 4)])
        (idle no_signal)) (PROXIMITY_SENSOR_1_ADDRESS - 400001) = 1"
  by code_simp

subsection \<open>A bus with faults\<close>

lemma fault_now:
  "faults w = True # fs \<Longrightarrow> write_plc_memory a v w = (Inl PLCError, w\<lparr>faults := fs\<rparr>)"
  "faults w = True # fs \<Longrightarrow> read_plc_memory a w = (Inl PLCError, w\<lparr>faults := fs\<rparr>)"
  by (simp_all add: write_plc_memory_def read_plc_memory_def next_fault_def consume_fault_def)

lemma fault_later:
  "faults w = False # fs \<Longrightarrow>
     write_plc_memory a v w =
       (if 0 \<le> v \<and> v \<le> 65535 then
          (Inr (), w\<lparr>faults := fs, regs := (regs w)(a - 400001 := v)\<rparr>)
        else (Inl StructError, w\<lparr>faults := fs\<rparr>))"
  "faults w = False # fs \<Longrightarrow>
     read_plc_memory a w = (Inr (regs w (a - 400001)), w\<lparr>faults := fs\<rparr>)"
  by (simp_all add: write_plc_memory_def read_plc_memory_def next_fault_def consume_fault_def)

lemma below_six:
  fixes k :: nat
  shows "k < 6 \<Longrightarrow> k = 0 \<or> k = 1 \<or> k = 2 \<or> k = 3 \<or> k = Suc 3 \<or> k = Suc 4"
  by arith

subsection \<open>restart_conveyor\<close>

lemma restart_ok:
  assumes "session w = Some p" "status p = stopped" "0 \<le> current_index p"
    "current_index p < int (length (qr_codes p))" "faults w = []"
  shows "request (restart_conveyor st) w =
     (([(''message'', JStr ''Conveyor restarted''),
        (''current_qr_code'', JCode (generate_qr_code (biscuit_type p) (brand p)
                   (production_type p) (quantity p) (current_index p) st)),
        (''remaining'', JInt (quantity p - current_index p))], 200),
      w\<lparr>regs := (regs w)(PROXIMITY_SENSOR_1_ADDRESS - 400001 := 0,
                         PROXIMITY_SENSOR_2_ADDRESS - 400001 := 0,
                         QR_SCANNER_ADDRESS - 400001 := 0,
                         BOX_STATUS_INDICATOR_ADDRESS - 400001 := 0,
                         CONVEYOR_CONTROL_ADDRESS - 400001 := 1),
        session := Some (p\<lparr>qr_codes := (qr_codes p)[nat (current_index p) :=
                              generate_qr_code (biscuit_type p) (brand p)
                                (production_type p) (quantity p) (current_index p) st],
                           status := running,
                           waiting_for_proximity_1 := True,
                           waiting_for_proximity_2 := False,
                           waiting_for_qr := False,
                           sensor_check_start := None\<rparr>),
        modified := False\<rparr>)"
  using assms
  by (simp add: request_def end_request_def restart_conveyor_def restart_try_def h_defs
      write_ok addr_defs Let_def py_store_def py_index_def)

lemma restart_refused:
  assumes "session w = None \<or> (session w = Some p \<and> status p \<noteq> stopped)"
  shows "request (restart_conveyor st) w =
           ((fst (fst (request (restart_conveyor st) w)), 400), w\<lparr>modified := False\<rparr>)"
  using assms
  by (auto simp add: request_def end_request_def restart_conveyor_def restart_try_def)

text \<open>
  C8. A restart of a stopped run whose \<open>current_index\<close> points into its codes, on a bus
  without faults: the code at \<open>current_index\<close> is replaced by a newly generated one, the
  registers of proximity 1, proximity 2, the scanner and the indicator are cleared, the
  conveyor register is written with 1, the status becomes \<open>running\<close> and the run waits
  for proximity 1 only. Without a session, or with a run that is not \<open>stopped\<close>, the
  reply is a 400 and neither the session nor a register changes, and no bus transaction
  is made.
\<close>

theorem restart_only_from_stopped:
  "(session w = Some p \<and> status p = stopped \<and> 0 \<le> current_index p
      \<and> current_index p < int (length (qr_codes p)) \<and> faults w = [] \<longrightarrow>
      snd (fst (request (restart_conveyor st) w)) = 200
      \<and> map_option qr_codes (session (snd (request (restart_conveyor st) w)))
          = Some ((qr_codes p)[nat (current_index p) :=
                    generate_qr_code (biscuit_type p) (brand p) (production_type p)
                      (quantity p) (current_index p) st])
      \<and> map_option current_index (session (snd (request (restart_conveyor st) w)))
          = Some (current_index p)
      \<and> regs (snd (request (restart_conveyor st) w)) (PROXIMITY_SENSOR_1_ADDRESS - 400001) = 0
      \<and> regs (snd (request (restart_conveyor st) w)) (PROXIMITY_SENSOR_2_ADDRESS - 400001) = 0
      \<and> regs (snd (request (restart_conveyor st) w)) (QR_SCANNER_ADDRESS - 400001) = 0
      \<and> regs (snd (request (restart_conveyor st) w)) (CONVEYOR_CONTROL_ADDRESS - 400001) = 1
      \<and> map_option status (session (snd (request (restart_conveyor st) w))) = Some running
      \<and> map_option waiting_for_proximity_1 (session (snd (request (restart_conveyor st) w)))
          = Some True
      \<and> map_option waiting_for_proximity_2 (session (snd (request (restart_conveyor st) w)))
          = Some False
      \<and> map_option waiting_for_qr (session (snd (request (restart_conveyor st) w)))
          = Some False)
   \<and> (session w = None \<or> (session w = Some p \<and> status p \<noteq> stopped) \<longrightarrow>
      snd (fst (request (restart_conveyor st) w)) = 400
      \<and> session (snd (request (restart_conveyor st) w)) = session w
      \<and> regs (snd (request (restart_conveyor st) w)) = regs w
      \<and> faults (snd (request (restart_conveyor st) w)) = faults w)"
proof (intro conjI impI)
  assume a: "session w = None \<or> (session w = Some p \<and> status p \<noteq> stopped)"
  note r = restart_refused [OF a, of st]
  show "snd (fst (request (restart_conveyor st) w)) = 400"
    by (subst r) simp
  show "session (snd (request (restart_conveyor st) w)) = session w"
    by (subst r) simp
  show "regs (snd (request (restart_conveyor st) w)) = regs w"
    by (subst r) simp
  show "faults (snd (request (restart_conveyor st) w)) = faults w"
    by (subst r) simp
qed (simp_all add: restart_ok addr_defs)

theorem restart_only_from_stopped_witness:
  "snd (fst (request (restart_conveyor demo_stamp) (plc_world scanner_on (Some stopped_run)))) = 200
   \<and> map_option qr_codes (session (snd (request (restart_conveyor demo_stamp)
        (plc_world scanner_on (Some stopped_run)))))
        = Some [generate_qr_code ''Cream'' ''Acme'' ''P3'' 2 0 demo_stamp, demo_code 1]
   \<and> map_option status (session (snd (request (restart_conveyor demo_stamp)
        (plc_world scanner_on (Some stopped_run))))) = Some running
   \<and> regs (snd (request (restart_conveyor demo_stamp)
        (plc_world scanner_on (Some stopped_run)))) (QR_SCANNER_ADDRESS - 400001) = 0
   \<and> snd (fst (request (restart_conveyor demo_stamp)
        (plc_world scanner_on (Some scanning_run)))) = 400
   \<and> session (snd (request (restart_conveyor demo_stamp)
        (plc_world scanner_on (Some scanning_run)))) = Some scanning_run"
  using restart_only_from_stopped
      [of "plc_world scanner_on (Some stopped_run)" stopped_run demo_stamp, THEN conjunct1]
    restart_only_from_stopped
      [of "plc_world scanner_on (Some scanning_run)" scanning_run demo_stamp, THEN conjunct2]
  by (simp add: demo_defs stopped_run_def addr_defs generate_qr_code_def)

subsection \<open>reset_production\<close>

lemma reset_ok:
  assumes "faults w = []"
  shows "request reset_production w =
     (([(''message'', JStr ''Production reset successfully'')], 200),
      w\<lparr>regs := (regs w)(CONVEYOR_CONTROL_ADDRESS - 400001 := 0,
                         PROXIMITY_SENSOR_1_ADDRESS - 400001 := 0,
                         PROXIMITY_SENSOR_2_ADDRESS - 400001 := 0,
                         QR_SCANNER_ADDRESS - 400001 := 0,
                         PRODUCTION_COMPLETE_ADDRESS - 400001 := 0,
                         BOX_STATUS_INDICATOR_ADDRESS - 400001 := 0),
        session := None, modified := False\<rparr>)"
  using assms
  by (cases "session w")
     (simp_all add: request_def end_request_def reset_production_def reset_plc_memory_def h_defs
        write_ok addr_defs)

lemma reset_fails:
  assumes "k < 6" "faults w = replicate k False @ True # fs"
  shows "snd (fst (request reset_production w)) = 500
       \<and> session (snd (request reset_production w)) = session w"
  using below_six [OF assms(1)] assms(2)
  by (elim disjE)
     (simp_all add: request_def end_request_def reset_production_def reset_plc_memory_def h_defs
        fault_now fault_later numeral_eq_Suc)

text \<open>
  C9, as the claim states it, fails on the accepted counter: \<open>reset_plc_memory\<close>
  writes six of the seven registers. After a completed run of one box the counter is 1,
  and it is still 1 after a reset that succeeds and discards the run.
\<close>

theorem reset_leaves_accepted_counter:
  "snd (fst (request reset_production (run one_box_trace (idle no_signal)))) = 200
   \<and> session (snd (request reset_production (run one_box_trace (idle no_signal)))) = None
   \<and> regs (snd (request reset_production (run one_box_trace (idle no_signal))))
        (ACCEPTED_BOXES_ADDRESS - 400001) = 1
   \<and> regs (snd (request reset_production (run one_box_trace (idle no_signal))))
        (ACCEPTED_BOXES_ADDRESS - 400001) \<noteq> 0"
  by code_simp

text \<open>
  C9, amended. On a bus without faults the reset succeeds whatever the session holds:
  it writes 0 to the conveyor, proximity 1, proximity 2, scanner, completion and
  indicator registers, leaves the accepted counter as it is, and removes the run from
  the session. When one of the six writes fails the reply is a 500 and the session is
  kept.
\<close>

theorem reset_production_effect:
  "(faults w = [] \<longrightarrow>
      snd (fst (request reset_production w)) = 200
      \<and> session (snd (request reset_production w)) = None
      \<and> regs (snd (request reset_production w)) (CONVEYOR_CONTROL_ADDRESS - 400001) = 0
      \<and> regs (snd (request reset_production w)) (PROXIMITY_SENSOR_1_ADDRESS - 400001) = 0
      \<and> regs (snd (request reset_production w)) (PROXIMITY_SENSOR_2_ADDRESS - 400001) = 0
      \<and> regs (snd (request reset_production w)) (QR_SCANNER_ADDRESS - 400001) = 0
      \<and> regs (snd (request reset_production w)) (PRODUCTION_COMPLETE_ADDRESS - 400001) = 0
      \<and> regs (snd (request reset_production w)) (BOX_STATUS_INDICATOR_ADDRESS - 400001) = 0
      \<and> regs (snd (request reset_production w)) (ACCEPTED_BOXES_ADDRESS - 400001)
          = regs w (ACCEPTED_BOXES_ADDRESS - 400001))
   \<and> (k < 6 \<and> faults w = replicate k False @ True # fs \<longrightarrow>
      snd (fst (request reset_production w)) = 500
      \<and> session (snd (request reset_production w)) = session w)"
  by (auto simp add: reset_ok reset_fails addr_defs)

theorem reset_production_effect_witness:
  "snd (fst (request reset_production (plc_world scanner_on (Some scanning_run)))) = 200
   \<and> session (snd (request reset_production (plc_world scanner_on (Some scanning_run)))) = None
   \<and> regs (snd (request reset_production (plc_world scanner_on (Some scanning_run))))
        (QR_SCANNER_ADDRESS - 400001) = 0
   \<and> regs (snd (request reset_production (plc_world scanner_on (Some scanning_run))))
        (ACCEPTED_BOXES_ADDRESS - 400001) = 1
   \<and> snd (fst (request reset_production
        (faulty_world [False, False, True] scanner_on (Some scanning_run)))) = 500
   \<and> session (snd (request reset_production
        (faulty_world [False, False, True] scanner_on (Some scanning_run)))) = Some scanning_run"
  using reset_production_effect
      [of "plc_world scanner_on (Some scanning_run)" 0 "[]", THEN conjunct1]
    reset_production_effect
      [of "faulty_world [False, False, True] scanner_on (Some scanning_run)" 2 "[]",
       THEN conjunct2]
  by (simp add: demo_defs faulty_world_def addr_defs numeral_eq_Suc)

subsection \<open>Rules for assertions on the session\<close>

lemma stays_return: "(\<And>s. P s \<Longrightarrow> Q a s) \<Longrightarrow> stays P (return_h a) Q E"
  by (simp add: stays_def return_h_def)

lemma stays_raise: "(\<And>s. P s \<Longrightarrow> E s) \<Longrightarrow> stays P (raise_h e) Q E"
  by (simp add: stays_def raise_h_def)

lemma stays_bind:
  assumes "stays P m R E" "\<And>a. stays (R a) (f a) Q E"
  shows "stays P (bind_h m f) Q E"
  unfolding stays_def bind_h_def
proof (intro allI impI)
  fix w :: world
  assume p: "P (session w)"
  obtain r w' where m: "m w = (r, w')" by (cases "m w")
  show "case (case m w of (Inl e, w') \<Rightarrow> (Inl e, w') | (Inr a, w') \<Rightarrow> f a w') of
          (Inl e, w') \<Rightarrow> E (session w') | (Inr a, w') \<Rightarrow> Q a (session w')"
  proof (cases r)
    case (Inl e)
    with assms(1) p m show ?thesis by (auto simp: stays_def)
  next
    case (Inr a)
    with assms(1) p m have "R a (session w')" by (auto simp: stays_def)
    with assms(2) [of a] have "case f a w' of (Inl e, w'') \<Rightarrow> E (session w'')
                                 | (Inr b, w'') \<Rightarrow> Q b (session w'')"
      by (simp add: stays_def)
    with m Inr show ?thesis by simp
  qed
qed

lemma stays_seq:
  assumes "stays P m (\<lambda>_. R) E" "stays R k Q E"
  shows "stays P (seq_h m k) Q E"
  unfolding seq_h_def using assms by (intro stays_bind)

lemma stays_weaken:
  assumes "stays P m Q E" "\<And>s. P' s \<Longrightarrow> P s" "\<And>a s. Q a s \<Longrightarrow> Q' a s" "\<And>s. E s \<Longrightarrow> E' s"
  shows "stays P' m Q' E'"
  using assms unfolding stays_def
  by (fastforce split: prod.splits sum.splits)

lemma stays_read:
  "(\<And>s. P s \<Longrightarrow> E s) \<Longrightarrow> (\<And>s v. P s \<Longrightarrow> Q v s) \<Longrightarrow> stays P (read_plc_memory a) Q E"
  by (simp add: stays_def read_plc_memory_def consume_fault_def)

lemma stays_write:
  "(\<And>s. P s \<Longrightarrow> E s) \<Longrightarrow> (\<And>s. P s \<Longrightarrow> Q () s) \<Longrightarrow> stays P (write_plc_memory a v) Q E"
  by (simp add: stays_def write_plc_memory_def consume_fault_def)

lemma stays_get:
  "(\<And>s. P s \<Longrightarrow> E s) \<Longrightarrow> (\<And>p. P (Some p) \<Longrightarrow> Q p (Some p)) \<Longrightarrow> stays P get_production Q E"
  by (auto simp add: stays_def get_production_def split: option.splits)

lemma stays_update:
  "(\<And>s. P s \<Longrightarrow> Q () (map_option f s)) \<Longrightarrow> stays P (update_production f) Q E"
  by (simp add: stays_def update_production_def)

lemma stays_save: "(\<And>s. P s \<Longrightarrow> Q () s) \<Longrightarrow> stays P save_session Q E"
  by (simp add: stays_def save_session_def)

lemma stays_lift:
  "(\<And>s e. P s \<Longrightarrow> r = Inl e \<Longrightarrow> E s) \<Longrightarrow> (\<And>s a. P s \<Longrightarrow> r = Inr a \<Longrightarrow> Q a s)
     \<Longrightarrow> stays P (lift_h r) Q E"
  by (cases r) (simp_all add: stays_def lift_h_def)

text \<open>Handlers that keep an assertion at every point.\<close>

lemma keeps_read: "(\<And>s. A s \<Longrightarrow> E s) \<Longrightarrow> stays A (read_plc_memory a) (\<lambda>_. A) E"
  by (rule stays_read)

lemma keeps_write: "(\<And>s. A s \<Longrightarrow> E s) \<Longrightarrow> stays A (write_plc_memory a v) (\<lambda>_. A) E"
  by (rule stays_write)

lemma keeps_code: "(\<And>s. A s \<Longrightarrow> E s) \<Longrightarrow> stays A current_code (\<lambda>_. A) E"
  unfolding current_code_def
  by (rule stays_bind [where R = "\<lambda>_. A"], rule stays_get, simp_all, rule stays_lift, simp_all)

lemma keeps_do_all:
  assumes "\<And>m. m \<in> set ms \<Longrightarrow> stays A m (\<lambda>_. A) E"
  shows "stays A (do_all ms) (\<lambda>_. A) E"
  using assms
proof (induction ms)
  case Nil
  show ?case by (simp add: stays_return)
next
  case (Cons m ms)
  show ?case
    by (simp, rule stays_seq [where R = A]) (simp_all add: Cons)
qed


subsection \<open>Every poll keeps the run well formed\<close>

lemmas bus_defs = read_plc_memory_def write_plc_memory_def consume_fault_def

lemmas run_defs = live_def wf_session_def wf_run_def

lemma live_wf: "live s \<Longrightarrow> wf_session s"
  by (simp add: run_defs split: option.splits)

lemma print_keeps_live: "stays live (automatic_print env b) (\<lambda>_. live) wf_session"
  by (auto simp add: stays_def automatic_print_def h_defs bus_defs run_defs py_index_def
      split: option.splits)

lemma queued_keeps_live: "stays live (queued_or_proximity_2 env b1 b2) (\<lambda>_. live) wf_session"
  by (auto simp add: stays_def queued_or_proximity_2_def h_defs bus_defs run_defs Let_def
      split: option.splits)

lemma accept_wf: "stays live (accept_box r) (\<lambda>_. wf_session) wf_session"
  by (auto simp add: stays_def accept_box_def h_defs bus_defs run_defs Let_def py_index_def
      split: option.splits)

lemma reject_wf: "stays live (reject_box r) (\<lambda>_. wf_session) wf_session"
  by (auto simp add: stays_def reject_box_def h_defs bus_defs run_defs
      split: option.splits)


lemma scan_wf:
  "stays live (scan_phase env b1 b2 b3 hq r) (\<lambda>_. wf_session) wf_session"
  unfolding scan_phase_def
proof (rule stays_bind [where R = "\<lambda>_. live"])
  show "stays live get_production (\<lambda>_. live) wf_session"
    by (rule stays_get) (simp_all add: live_wf)
next
  fix p
  show "stays live
          (if waiting_for_qr p then
             bind_h (case sensor_check_start p of
                       None \<Rightarrow> raise_h TypeError
                     | Some t \<Rightarrow> return_h (now_check env - t)) (\<lambda>elapsed.
               let time_left = max 0 (5 - elapsed) in
               if b3 then accept_box r
               else if elapsed \<ge> 5 then reject_box r
               else
                 bind_h current_code (\<lambda>code.
                   return_h (dict_update r
                     [(''status'', JStr ''running''),
                      (''time_left'', JNum time_left),
                      (''current_qr_code'', JCode code),
                      (''message'', JStr ''Waiting for QR scan''),
                      (''has_queued_box'', JBool hq)])))
           else
             return_h (dict_update r
               [(''status'', JStr ''running''),
                (''proximity_1_active'', JBool b1),
                (''proximity_2_active'', JBool b2),
                (''waiting_for_proximity_1'', JBool (waiting_for_proximity_1 p)),
                (''waiting_for_proximity_2'', JBool (waiting_for_proximity_2 p)),
                (''waiting_for_qr'', JBool (waiting_for_qr p)),
                (''message'', JStr ''Production in progress''),
                (''has_queued_box'', JBool hq)]))
          (\<lambda>_. wf_session) wf_session"
  proof (cases "waiting_for_qr p")
    case False
    then show ?thesis by (simp add: stays_return live_wf)
  next
    case True
    have clock: "stays live
        (case sensor_check_start p of
           None \<Rightarrow> raise_h TypeError
         | Some t \<Rightarrow> return_h (now_check env - t)) (\<lambda>_. live) wf_session"
      by (cases "sensor_check_start p") (simp_all add: stays_raise stays_return live_wf)
    have rest: "stays live
        (let time_left = max 0 (5 - elapsed) in
         if b3 then accept_box r
         else if elapsed \<ge> 5 then reject_box r
         else
           bind_h current_code (\<lambda>code.
             return_h (dict_update r
               [(''status'', JStr ''running''),
                (''time_left'', JNum time_left),
                (''current_qr_code'', JCode code),
                (''message'', JStr ''Waiting for QR scan''),
                (''has_queued_box'', JBool hq)])))
        (\<lambda>_. wf_session) wf_session" for elapsed :: real
      unfolding Let_def
      by (auto intro!: accept_wf reject_wf stays_bind [where R = "\<lambda>_. live"] keeps_code
            stays_return live_wf)
    from True show ?thesis
      by (simp only: if_True) (rule stays_bind [OF clock rest])
  qed
qed

lemma complete_wf:
  "stays (\<lambda>s. \<exists>p. s = Some p \<and> wf_run p \<and> quantity p \<le> current_index p)
     (complete_run env r) (\<lambda>_. wf_session) wf_session"
  by (auto simp add: stays_def complete_run_def h_defs bus_defs run_defs
      split: option.splits)

lemma waiting_wf:
  "stays wf_session (waiting_branch env c r) (\<lambda>_. wf_session) wf_session"
  by (auto simp add: stays_def waiting_branch_def h_defs bus_defs run_defs py_index_def
      split: option.splits)

lemma running_wf:
  "stays (\<lambda>s. \<exists>p. s = Some p \<and> wf_run p \<and> status p = running)
     (running_branch env r) (\<lambda>_. wf_session) wf_session"
  unfolding running_branch_def
proof (rule stays_bind
    [where R = "\<lambda>p s. s = Some p \<and> wf_run p \<and> status p = running"])
  show "stays (\<lambda>s. \<exists>p. s = Some p \<and> wf_run p \<and> status p = running) get_production
          (\<lambda>p s. s = Some p \<and> wf_run p \<and> status p = running) wf_session"
    by (rule stays_get) (auto simp add: wf_session_def)
next
  fix p
  let ?P = "\<lambda>s. s = Some p \<and> wf_run p \<and> status p = running"
  show "stays ?P
     (if current_index p \<ge> quantity p then complete_run env r
       else
         bind_h (read_plc_memory PROXIMITY_SENSOR_1_ADDRESS) (\<lambda>v1.
         bind_h (read_plc_memory PROXIMITY_SENSOR_2_ADDRESS) (\<lambda>v2.
         bind_h (read_plc_memory QR_SCANNER_ADDRESS) (\<lambda>v3.
           let proximity_1 = (v1 = 1); proximity_2 = (v2 = 1); qr_scanner = (v3 = 1) in
           seq_h (automatic_print env proximity_1)
             (bind_h (queued_or_proximity_2 env proximity_1 proximity_2) (\<lambda>has_queued_box.
                scan_phase env proximity_1 proximity_2 qr_scanner has_queued_box r))))))
     (\<lambda>_. wf_session) wf_session"
  proof (cases "current_index p \<ge> quantity p")
    case True
    then show ?thesis
      by (simp only: if_True) (rule stays_weaken [OF complete_wf], auto)
  next
    case False
    have body: "stays live
         (bind_h (read_plc_memory PROXIMITY_SENSOR_1_ADDRESS) (\<lambda>v1.
         bind_h (read_plc_memory PROXIMITY_SENSOR_2_ADDRESS) (\<lambda>v2.
         bind_h (read_plc_memory QR_SCANNER_ADDRESS) (\<lambda>v3.
           let proximity_1 = (v1 = 1); proximity_2 = (v2 = 1); qr_scanner = (v3 = 1) in
           seq_h (automatic_print env proximity_1)
             (bind_h (queued_or_proximity_2 env proximity_1 proximity_2) (\<lambda>has_queued_box.
                scan_phase env proximity_1 proximity_2 qr_scanner has_queued_box r))))))
         (\<lambda>_. wf_session) wf_session"
      unfolding Let_def
      by (intro stays_bind [where R = "\<lambda>_. live"] stays_seq [where R = live] keeps_read
            print_keeps_live queued_keeps_live scan_wf live_wf)
    from False show ?thesis
      by (simp only: if_False) (rule stays_weaken [OF body], auto simp add: live_def)
  qed
qed

lemma status_body_wf: "stays wf_session (status_body env) (\<lambda>_. wf_session) wf_session"
  unfolding status_body_def
proof (rule stays_bind [where R = "\<lambda>_. wf_session"])
  show "stays wf_session (read_plc_memory CONVEYOR_CONTROL_ADDRESS) (\<lambda>_. wf_session) wf_session"
    by (rule keeps_read) simp
next
  fix c
  show "stays wf_session
     (bind_h get_production (\<lambda>p.
       case status p of
         waiting_for_conveyor \<Rightarrow> waiting_branch env c default_response
       | running \<Rightarrow> running_branch env default_response
       | completed \<Rightarrow>
           return_h (dict_update default_response
             [(''status'', JStr ''completed''),
              (''accepted_boxes'', JInt (accepted_boxes p)),
              (''rejected_boxes'', JInt (rejected_boxes p)),
              (''show_summary'', JBool True)])
       | stopped \<Rightarrow>
           return_h (dict_update default_response
             [(''status'', JStr ''stopped''),
              (''rejected_boxes'', JInt (rejected_boxes p)),
              (''remaining'', JInt (quantity p - current_index p)),
              (''can_restart'', JBool True)])))
     (\<lambda>_. wf_session) wf_session"
  proof (rule stays_bind [where R = "\<lambda>p s. s = Some p \<and> wf_run p"])
    show "stays wf_session get_production (\<lambda>p s. s = Some p \<and> wf_run p) wf_session"
      by (rule stays_get) (auto simp add: wf_session_def)
  next
    fix p
    show "stays (\<lambda>s. s = Some p \<and> wf_run p)
       (case status p of
         waiting_for_conveyor \<Rightarrow> waiting_branch env c default_response
       | running \<Rightarrow> running_branch env default_response
       | completed \<Rightarrow>
           return_h (dict_update default_response
             [(''status'', JStr ''completed''),
              (''accepted_boxes'', JInt (accepted_boxes p)),
              (''rejected_boxes'', JInt (rejected_boxes p)),
              (''show_summary'', JBool True)])
       | stopped \<Rightarrow>
           return_h (dict_update default_response
             [(''status'', JStr ''stopped''),
              (''rejected_boxes'', JInt (rejected_boxes p)),
              (''remaining'', JInt (quantity p - current_index p)),
              (''can_restart'', JBool True)]))
       (\<lambda>_. wf_session) wf_session"
    proof (cases "status p")
      case waiting_for_conveyor
      then show ?thesis
        by simp (rule stays_weaken [OF waiting_wf], auto simp add: wf_session_def)
    next
      case running
      then show ?thesis
        by simp (rule stays_weaken [OF running_wf], auto)
    next
      case completed
      then show ?thesis by (simp add: stays_def return_h_def wf_session_def)
    next
      case stopped
      then show ?thesis by (simp add: stays_def return_h_def wf_session_def)
    qed
  qed
qed

lemma stays_snd:
  assumes "stays P m Q E" "\<And>a s. Q a s \<Longrightarrow> E s" "P (session w)"
  shows "E (session (snd (m w)))"
proof -
  obtain r w' where m: "m w = (r, w')" by (cases "m w")
  from assms(1,3) m have "case r of Inl e \<Rightarrow> E (session w') | Inr a \<Rightarrow> Q a (session w')"
    by (auto simp add: stays_def split: sum.splits)
  with assms(2) m show ?thesis by (cases r) auto
qed

lemma poll_wf:
  "wf_session (session w) \<Longrightarrow> wf_session (session (snd (check_production_status env w)))"
  using stays_snd [OF status_body_wf, of w env]
  by (auto simp add: check_production_status_def split: option.splits prod.splits sum.splits)

subsection \<open>Every request keeps the run well formed\<close>

lemma stays_set: "(\<And>s. P s \<Longrightarrow> Q () (Some p)) \<Longrightarrow> stays P (set_session p) Q E"
  by (simp add: stays_def set_session_def)

lemma reset_plc_keeps: "(\<And>s. A s \<Longrightarrow> E s) \<Longrightarrow> stays A reset_plc_memory (\<lambda>_. A) E"
  unfolding reset_plc_memory_def
  by (rule keeps_do_all) (auto intro: keeps_write)

lemma new_production_wf:
  "0 < qty \<Longrightarrow> wf_run (new_production btype br ptype qty (map f [0..<nat qty]) now)"
  by (simp add: wf_run_def new_production_def)

lemma start_try_wf:
  "stays wf_session (start_try btype br ptype cq stamps now) (\<lambda>_. wf_session) wf_session"
  unfolding start_try_def
proof (rule stays_bind [where R = "\<lambda>r s. wf_session s \<and> (\<forall>q. r = Inr q \<longrightarrow> 0 < q)"])
  show "stays wf_session (determine_quantity ptype cq)
          (\<lambda>r s. wf_session s \<and> (\<forall>q. r = Inr q \<longrightarrow> 0 < q)) wf_session"
    by (auto simp add: stays_def determine_quantity_def return_h_def raise_h_def
        split: int_parse.splits)
next
  fix r :: "reply + int"
  show "stays (\<lambda>s. wf_session s \<and> (\<forall>q. r = Inr q \<longrightarrow> 0 < q))
          (case r of
             Inl early \<Rightarrow> return_h early
           | Inr qty \<Rightarrow>
               let codes = map (\<lambda>i. generate_qr_code btype br ptype qty (int i) (stamps i))
                               [0..<nat qty] in
               seq_h (do_all
                 [set_session (new_production btype br ptype qty codes now),
                  reset_plc_memory,
                  write_plc_memory ACCEPTED_BOXES_ADDRESS 0,
                  write_plc_memory CONVEYOR_CONTROL_ADDRESS 1])
                 (bind_h (lift_h (py_index codes 0)) (\<lambda>first.
                    return_h ([(''message'', JStr ''Production started - waiting for conveyor''),
                               (''first_qr_code'', JCode first),
                               (''total_quantity'', JInt qty)], 200))))
          (\<lambda>_. wf_session) wf_session"
  proof (cases r)
    case (Inl early)
    then show ?thesis by (simp add: stays_def return_h_def)
  next
    case (Inr qty)
    have "stays (\<lambda>s. wf_session s \<and> 0 < qty)
            (seq_h (set_session (new_production btype br ptype qty
                      (map (\<lambda>i. generate_qr_code btype br ptype qty (int i) (stamps i))
                         [0..<nat qty]) now))
               (do_all [reset_plc_memory,
                  write_plc_memory ACCEPTED_BOXES_ADDRESS 0,
                  write_plc_memory CONVEYOR_CONTROL_ADDRESS 1]))
            (\<lambda>_. wf_session) wf_session"
    proof (rule stays_seq [where R = wf_session])
      show "stays wf_session
              (do_all [reset_plc_memory,
                  write_plc_memory ACCEPTED_BOXES_ADDRESS 0,
                  write_plc_memory CONVEYOR_CONTROL_ADDRESS 1])
              (\<lambda>_. wf_session) wf_session"
        by (rule keeps_do_all) (auto intro: keeps_write reset_plc_keeps)
    qed (rule stays_set, simp add: wf_session_def new_production_wf)
    then have "stays (\<lambda>s. wf_session s \<and> 0 < qty)
            (seq_h (do_all
                 [set_session (new_production btype br ptype qty
                      (map (\<lambda>i. generate_qr_code btype br ptype qty (int i) (stamps i))
                         [0..<nat qty]) now),
                  reset_plc_memory,
                  write_plc_memory ACCEPTED_BOXES_ADDRESS 0,
                  write_plc_memory CONVEYOR_CONTROL_ADDRESS 1])
                 (bind_h (lift_h (py_index (map (\<lambda>i. generate_qr_code btype br ptype qty (int i) (stamps i))
                         [0..<nat qty]) 0)) (\<lambda>first.
                    return_h ([(''message'', JStr ''Production started - waiting for conveyor''),
                               (''first_qr_code'', JCode first),
                               (''total_quantity'', JInt qty)], 200))))
            (\<lambda>_. wf_session) wf_session"
      by (intro stays_seq [where R = wf_session] stays_bind [where R = "\<lambda>_. wf_session"]
            stays_lift stays_return) simp_all
    with Inr show ?thesis by (simp add: Let_def)
  qed
qed

lemma start_wf:
  "wf_session (session w) \<Longrightarrow> wf_session (session (snd (start_production data stamps now w)))"
proof -
  assume a: "wf_session (session w)"
  have t: "wf_session (session (snd (start_try btype br ptype cq stamps now w)))"
    for btype br ptype cq
    by (rule stays_snd [OF start_try_wf _ a])
  show ?thesis
    using a t
    by (auto simp add: start_production_def split: option.splits prod.splits sum.splits)
       (metis snd_conv)+
qed


lemma snd_try:
  "snd (case p of (x, w') \<Rightarrow> (case x of Inl e \<Rightarrow> (g e, w') | Inr r \<Rightarrow> (f r, w'))) = snd p"
  by (auto split: prod.splits sum.splits)

lemma request_snd:
  "snd (request h w) = end_request w (snd (h (w\<lparr>modified := False\<rparr>)))"
  by (simp add: request_def split: prod.splits)

lemma request_fst: "fst (request h w) = fst (h (w\<lparr>modified := False\<rparr>))"
  by (simp add: request_def split: prod.splits)

lemma stores_wf:
  "stays (\<lambda>s. \<exists>p. s = Some p \<and> wf_run p \<and> length codes = length (qr_codes p))
     (seq_h (do_all
         [update_production (\<lambda>p. p\<lparr>qr_codes := codes\<rparr>),
          write_plc_memory PROXIMITY_SENSOR_1_ADDRESS 0,
          write_plc_memory PROXIMITY_SENSOR_2_ADDRESS 0,
          write_plc_memory QR_SCANNER_ADDRESS 0,
          write_plc_memory BOX_STATUS_INDICATOR_ADDRESS 0,
          write_plc_memory CONVEYOR_CONTROL_ADDRESS 1,
          update_production (\<lambda>p. p\<lparr>status := running,
                                    waiting_for_proximity_1 := True,
                                    waiting_for_proximity_2 := False,
                                    waiting_for_qr := False,
                                    sensor_check_start := None\<rparr>),
          save_session])
         (bind_h get_production (\<lambda>p.
          bind_h current_code (\<lambda>code.
            return_h ([(''message'', JStr ''Conveyor restarted''),
                       (''current_qr_code'', JCode code),
                       (''remaining'', JInt (quantity p - current_index p))], 200)))))
     (\<lambda>_. wf_session) wf_session"
proof (rule stays_seq [where R = wf_session])
  have upd: "stays (\<lambda>s. \<exists>p. s = Some p \<and> wf_run p \<and> length codes = length (qr_codes p))
               (update_production (\<lambda>p. p\<lparr>qr_codes := codes\<rparr>)) (\<lambda>_. wf_session) wf_session"
    by (rule stays_update) (auto simp add: wf_session_def wf_run_def)
  have rest: "stays wf_session
               (do_all
                 [write_plc_memory PROXIMITY_SENSOR_1_ADDRESS 0,
                  write_plc_memory PROXIMITY_SENSOR_2_ADDRESS 0,
                  write_plc_memory QR_SCANNER_ADDRESS 0,
                  write_plc_memory BOX_STATUS_INDICATOR_ADDRESS 0,
                  write_plc_memory CONVEYOR_CONTROL_ADDRESS 1,
                  update_production (\<lambda>p. p\<lparr>status := running,
                                            waiting_for_proximity_1 := True,
                                            waiting_for_proximity_2 := False,
                                            waiting_for_qr := False,
                                            sensor_check_start := None\<rparr>),
                  save_session]) (\<lambda>_. wf_session) wf_session"
    by (rule keeps_do_all)
       (auto intro!: keeps_write stays_update stays_save
          simp add: wf_session_def wf_run_def split: option.splits)
  show "stays (\<lambda>s. \<exists>p. s = Some p \<and> wf_run p \<and> length codes = length (qr_codes p))
          (do_all
             [update_production (\<lambda>p. p\<lparr>qr_codes := codes\<rparr>),
              write_plc_memory PROXIMITY_SENSOR_1_ADDRESS 0,
              write_plc_memory PROXIMITY_SENSOR_2_ADDRESS 0,
              write_plc_memory QR_SCANNER_ADDRESS 0,
              write_plc_memory BOX_STATUS_INDICATOR_ADDRESS 0,
              write_plc_memory CONVEYOR_CONTROL_ADDRESS 1,
              update_production (\<lambda>p. p\<lparr>status := running,
                                        waiting_for_proximity_1 := True,
                                        waiting_for_proximity_2 := False,
                                        waiting_for_qr := False,
                                        sensor_check_start := None\<rparr>),
              save_session]) (\<lambda>_. wf_session) wf_session"
    using stays_seq [OF upd rest] by simp
  show "stays wf_session
          (bind_h get_production (\<lambda>p.
           bind_h current_code (\<lambda>code.
             return_h ([(''message'', JStr ''Conveyor restarted''),
                        (''current_qr_code'', JCode code),
                        (''remaining'', JInt (quantity p - current_index p))], 200))))
          (\<lambda>_. wf_session) wf_session"
    by (intro stays_bind [where R = "\<lambda>_. wf_session"] stays_get keeps_code stays_return)
       simp_all
qed

lemma py_store_length: "py_store xs i v = Inr ys \<Longrightarrow> length ys = length xs"
  by (auto simp add: py_store_def split: if_splits)

lemma restart_wf:
  assumes "wf_session (session w)"
  shows "wf_session (session (snd (restart_conveyor st w)))"
proof -
  have "wf_session (session (snd (restart_try st w)))"
  proof (cases "session w")
    case None
    with assms show ?thesis by (simp add: restart_try_def)
  next
    case (Some p)
    show ?thesis
    proof (cases "status p = stopped")
      case False
      with Some assms show ?thesis by (simp add: restart_try_def)
    next
      case True
      let ?new = "generate_qr_code (biscuit_type p) (brand p) (production_type p)
                    (quantity p) (current_index p) st"
      show ?thesis
      proof (cases "py_store (qr_codes p) (current_index p) ?new")
        case (Inl e)
        with Some True assms show ?thesis
          by (simp add: restart_try_def Let_def bind_h_def lift_h_def)
      next
        case (Inr codes)
        from Some assms have "\<exists>q. session w = Some q \<and> wf_run q
                                \<and> length codes = length (qr_codes q)"
          by (simp add: wf_session_def py_store_length [OF Inr])
        from stays_snd [OF stores_wf, where w = w and codes1 = codes, OF _ this]
        show ?thesis
          using Some True Inr
          by (simp add: restart_try_def Let_def bind_h_def lift_h_def)
      qed
    qed
  qed
  then show ?thesis
    by (simp add: restart_conveyor_def snd_try)
qed

lemma reset_wf:
  assumes "wf_session (session w)"
  shows "wf_session (session (snd (reset_production w)))"
proof -
  have "stays wf_session
          (seq_h reset_plc_memory
             (\<lambda>w. if session w \<noteq> None then pop_session w else return_h () w))
          (\<lambda>_. wf_session) wf_session"
    by (rule stays_seq [where R = wf_session], rule reset_plc_keeps, simp)
       (simp add: stays_def pop_session_def return_h_def wf_session_def)
  from stays_snd [OF this _ assms] show ?thesis
    by (simp add: reset_production_def snd_try)
qed

lemma simulate_wf:
  assumes "wf_session (session w)"
  shows "wf_session (session (snd (simulate_conveyor_start w)))"
  using assms
  by (auto simp add: simulate_conveyor_start_def h_defs bus_defs wf_session_def wf_run_def
      split: option.splits)

lemma scanner_wf:
  assumes "wf_session (session w)"
  shows "wf_session (session (snd (activate_scanner w)))"
  using assms
  by (auto simp add: activate_scanner_def bus_defs)

lemma request_wf:
  assumes "wf_session (session w)"
    and "\<And>w'. wf_session (session w') \<Longrightarrow> wf_session (session (snd (h w')))"
  shows "wf_session (session (snd (request h w)))"
proof -
  have "wf_session (session (snd (h (w\<lparr>modified := False\<rparr>))))"
    using assms by simp
  with assms(1) show ?thesis
    by (simp add: request_snd end_request_def)
qed

lemma step_wf: "wf_session (session w) \<Longrightarrow> wf_session (session (step e w))"
  by (cases e)
     (simp_all add: request_wf start_wf poll_wf restart_wf reset_wf simulate_wf scanner_wf)

lemma run_wf: "wf_session (session w) \<Longrightarrow> wf_session (session (run es w))"
  unfolding run_def
  by (induction es arbitrary: w) (simp_all add: step_wf)

subsection \<open>The accepted counter on a bus without faults\<close>

lemma holds_return: "(\<And>w. P w \<Longrightarrow> Q a w) \<Longrightarrow> holds P (return_h a) Q E"
  by (simp add: holds_def return_h_def)

lemma holds_raise: "(\<And>w. P w \<Longrightarrow> E w) \<Longrightarrow> holds P (raise_h e) Q E"
  by (simp add: holds_def raise_h_def)

lemma holds_bind:
  assumes "holds P m R E" "\<And>a. holds (R a) (f a) Q E"
  shows "holds P (bind_h m f) Q E"
  unfolding holds_def bind_h_def
proof (intro allI impI)
  fix w :: world
  assume p: "P w"
  obtain r w' where m: "m w = (r, w')" by (cases "m w")
  show "case (case m w of (Inl e, w') \<Rightarrow> (Inl e, w') | (Inr a, w') \<Rightarrow> f a w') of
          (Inl e, w') \<Rightarrow> E w' | (Inr a, w') \<Rightarrow> Q a w'"
  proof (cases r)
    case (Inl e)
    with assms(1) p m show ?thesis by (auto simp: holds_def)
  next
    case (Inr a)
    with assms(1) p m have "R a w'" by (auto simp: holds_def)
    with assms(2) [of a] have "case f a w' of (Inl e, w'') \<Rightarrow> E w'' | (Inr b, w'') \<Rightarrow> Q b w''"
      by (simp add: holds_def)
    with m Inr show ?thesis by simp
  qed
qed

lemma holds_seq:
  assumes "holds P m (\<lambda>_. R) E" "holds R k Q E"
  shows "holds P (seq_h m k) Q E"
  unfolding seq_h_def using assms by (intro holds_bind)

lemma holds_weaken:
  assumes "holds P m Q E" "\<And>w. P' w \<Longrightarrow> P w" "\<And>a w. Q a w \<Longrightarrow> Q' a w" "\<And>w. E w \<Longrightarrow> E' w"
  shows "holds P' m Q' E'"
  using assms unfolding holds_def
  by (fastforce split: prod.splits sum.splits)

lemma holds_snd:
  assumes "holds P m Q E" "\<And>a w. Q a w \<Longrightarrow> E w" "P w"
  shows "E (snd (m w))"
proof -
  obtain r w' where m: "m w = (r, w')" by (cases "m w")
  from assms(1,3) m have "case r of Inl e \<Rightarrow> E w' | Inr a \<Rightarrow> Q a w'"
    by (auto simp add: holds_def split: sum.splits)
  with assms(2) m show ?thesis by (cases r) auto
qed

lemma holds_read:
  "(\<And>w. P w \<Longrightarrow> faults w = [] \<and> Q (regs w (a - 400001)) w) \<Longrightarrow> holds P (read_plc_memory a) Q E"
  by (simp add: holds_def read_ok)

lemma holds_get:
  "(\<And>w. P w \<Longrightarrow> \<exists>p. session w = Some p)
   \<Longrightarrow> (\<And>w p. P w \<Longrightarrow> session w = Some p \<Longrightarrow> Q p w) \<Longrightarrow> holds P get_production Q E"
  by (fastforce simp add: holds_def get_production_def split: option.splits)

lemma holds_code: "(\<And>w. A w \<Longrightarrow> E w) \<Longrightarrow> holds A current_code (\<lambda>_. A) E"
  by (auto simp add: holds_def current_code_def h_defs split: option.splits sum.splits)

lemmas from_defs = live_from_def counted_from_def counted_def live_def wf_run_def

lemma live_from_counted: "live_from s0 w \<Longrightarrow> counted_from s0 w"
  by (simp add: live_from_def)

lemma print_counted:
  "holds (live_from s0) (automatic_print env b) (\<lambda>_. live_from s0) (counted_from s0)"
  by (auto simp add: holds_def automatic_print_def h_defs read_ok write_ok addr_defs from_defs
        py_index_def split: option.splits)

lemma queued_counted:
  "holds (live_from s0) (queued_or_proximity_2 env b1 b2) (\<lambda>_. live_from s0) (counted_from s0)"
  by (auto simp add: holds_def queued_or_proximity_2_def h_defs read_ok write_ok addr_defs
        from_defs Let_def split: option.splits)

lemma accept_counted:
  "holds (live_from s0) (accept_box r) (\<lambda>_. counted_from s0) (counted_from s0)"
  by (auto simp add: holds_def accept_box_def h_defs read_ok write_ok addr_defs
        from_defs Let_def py_index_def split: option.splits)

lemma reject_counted:
  "holds (live_from s0) (reject_box r) (\<lambda>_. counted_from s0) (counted_from s0)"
  by (auto simp add: holds_def reject_box_def h_defs read_ok write_ok addr_defs
        from_defs split: option.splits)

lemma complete_counted:
  "holds (\<lambda>w. counted_from s0 w \<and> (\<exists>p. session w = Some p \<and> quantity p \<le> current_index p))
     (complete_run env r) (\<lambda>_. counted_from s0) (counted_from s0)"
  by (auto simp add: holds_def complete_run_def h_defs read_ok write_ok addr_defs
        from_defs split: option.splits)

lemma waiting_counted:
  "holds (counted_from s0) (waiting_branch env c r) (\<lambda>_. counted_from s0) (counted_from s0)"
  by (auto simp add: holds_def waiting_branch_def h_defs read_ok write_ok addr_defs
        from_defs py_index_def split: option.splits)


lemma scan_counted:
  "holds (live_from s0) (scan_phase env b1 b2 b3 hq r) (\<lambda>_. counted_from s0) (counted_from s0)"
  unfolding scan_phase_def
proof (rule holds_bind [where R = "\<lambda>_. live_from s0"])
  show "holds (live_from s0) get_production (\<lambda>_. live_from s0) (counted_from s0)"
    by (rule holds_get) (auto simp add: live_from_def live_def split: option.splits)
next
  fix p
  show "holds (live_from s0)
          (if waiting_for_qr p then
             bind_h (case sensor_check_start p of
                       None \<Rightarrow> raise_h TypeError
                     | Some t \<Rightarrow> return_h (now_check env - t)) (\<lambda>elapsed.
               let time_left = max 0 (5 - elapsed) in
               if b3 then accept_box r
               else if elapsed \<ge> 5 then reject_box r
               else
                 bind_h current_code (\<lambda>code.
                   return_h (dict_update r
                     [(''status'', JStr ''running''),
                      (''time_left'', JNum time_left),
                      (''current_qr_code'', JCode code),
                      (''message'', JStr ''Waiting for QR scan''),
                      (''has_queued_box'', JBool hq)])))
           else
             return_h (dict_update r
               [(''status'', JStr ''running''),
                (''proximity_1_active'', JBool b1),
                (''proximity_2_active'', JBool b2),
                (''waiting_for_proximity_1'', JBool (waiting_for_proximity_1 p)),
                (''waiting_for_proximity_2'', JBool (waiting_for_proximity_2 p)),
                (''waiting_for_qr'', JBool (waiting_for_qr p)),
                (''message'', JStr ''Production in progress''),
                (''has_queued_box'', JBool hq)]))
          (\<lambda>_. counted_from s0) (counted_from s0)"
  proof (cases "waiting_for_qr p")
    case False
    then show ?thesis by (simp add: holds_return live_from_counted)
  next
    case True
    have clock: "holds (live_from s0)
        (case sensor_check_start p of
           None \<Rightarrow> raise_h TypeError
         | Some t \<Rightarrow> return_h (now_check env - t)) (\<lambda>_. live_from s0) (counted_from s0)"
      by (cases "sensor_check_start p") (simp_all add: holds_raise holds_return live_from_counted)
    have rest: "holds (live_from s0)
        (let time_left = max 0 (5 - elapsed) in
         if b3 then accept_box r
         else if elapsed \<ge> 5 then reject_box r
         else
           bind_h current_code (\<lambda>code.
             return_h (dict_update r
               [(''status'', JStr ''running''),
                (''time_left'', JNum time_left),
                (''current_qr_code'', JCode code),
                (''message'', JStr ''Waiting for QR scan''),
                (''has_queued_box'', JBool hq)])))
        (\<lambda>_. counted_from s0) (counted_from s0)" for elapsed :: real
      unfolding Let_def
      by (auto intro!: accept_counted reject_counted holds_bind [where R = "\<lambda>_. live_from s0"]
            holds_code holds_return live_from_counted)
    from True show ?thesis
      by (simp only: if_True) (rule holds_bind [OF clock rest])
  qed
qed

lemma running_counted:
  "holds (\<lambda>w. counted_from s0 w \<and> (\<exists>p. session w = Some p \<and> status p = running))
     (running_branch env r) (\<lambda>_. counted_from s0) (counted_from s0)"
  unfolding running_branch_def
proof (rule holds_bind
    [where R = "\<lambda>p w. counted_from s0 w \<and> session w = Some p \<and> status p = running"])
  show "holds (\<lambda>w. counted_from s0 w \<and> (\<exists>p. session w = Some p \<and> status p = running))
          get_production
          (\<lambda>p w. counted_from s0 w \<and> session w = Some p \<and> status p = running) (counted_from s0)"
    by (rule holds_get) auto
next
  fix p
  let ?P = "\<lambda>w. counted_from s0 w \<and> session w = Some p \<and> status p = running"
  show "holds ?P
     (if current_index p \<ge> quantity p then complete_run env r
       else
         bind_h (read_plc_memory PROXIMITY_SENSOR_1_ADDRESS) (\<lambda>v1.
         bind_h (read_plc_memory PROXIMITY_SENSOR_2_ADDRESS) (\<lambda>v2.
         bind_h (read_plc_memory QR_SCANNER_ADDRESS) (\<lambda>v3.
           let proximity_1 = (v1 = 1); proximity_2 = (v2 = 1); qr_scanner = (v3 = 1) in
           seq_h (automatic_print env proximity_1)
             (bind_h (queued_or_proximity_2 env proximity_1 proximity_2) (\<lambda>has_queued_box.
                scan_phase env proximity_1 proximity_2 qr_scanner has_queued_box r))))))
     (\<lambda>_. counted_from s0) (counted_from s0)"
  proof (cases "current_index p \<ge> quantity p")
    case True
    then show ?thesis
      by (simp only: if_True) (rule holds_weaken [OF complete_counted], auto)
  next
    case False
    have quiet: "live_from s0 w \<Longrightarrow> faults w = []" for w
      by (simp add: from_defs)
    have body: "holds (live_from s0)
         (bind_h (read_plc_memory PROXIMITY_SENSOR_1_ADDRESS) (\<lambda>v1.
         bind_h (read_plc_memory PROXIMITY_SENSOR_2_ADDRESS) (\<lambda>v2.
         bind_h (read_plc_memory QR_SCANNER_ADDRESS) (\<lambda>v3.
           let proximity_1 = (v1 = 1); proximity_2 = (v2 = 1); qr_scanner = (v3 = 1) in
           seq_h (automatic_print env proximity_1)
             (bind_h (queued_or_proximity_2 env proximity_1 proximity_2) (\<lambda>has_queued_box.
                scan_phase env proximity_1 proximity_2 qr_scanner has_queued_box r))))))
         (\<lambda>_. counted_from s0) (counted_from s0)"
      unfolding Let_def
      by (intro holds_bind [where R = "\<lambda>_. live_from s0"] holds_seq [where R = "live_from s0"]
            holds_read print_counted queued_counted scan_counted conjI quiet)
    from False show ?thesis
      by (simp only: if_False)
         (rule holds_weaken [OF body], auto simp add: from_defs)
  qed
qed

lemma status_body_counted:
  "holds (counted_from s0) (status_body env) (\<lambda>_. counted_from s0) (counted_from s0)"
  unfolding status_body_def
proof (rule holds_bind [where R = "\<lambda>_. counted_from s0"])
  show "holds (counted_from s0) (read_plc_memory CONVEYOR_CONTROL_ADDRESS)
          (\<lambda>_. counted_from s0) (counted_from s0)"
    by (rule holds_read) (simp add: from_defs)
next
  fix c
  show "holds (counted_from s0)
     (bind_h get_production (\<lambda>p.
       case status p of
         waiting_for_conveyor \<Rightarrow> waiting_branch env c default_response
       | running \<Rightarrow> running_branch env default_response
       | completed \<Rightarrow>
           return_h (dict_update default_response
             [(''status'', JStr ''completed''),
              (''accepted_boxes'', JInt (accepted_boxes p)),
              (''rejected_boxes'', JInt (rejected_boxes p)),
              (''show_summary'', JBool True)])
       | stopped \<Rightarrow>
           return_h (dict_update default_response
             [(''status'', JStr ''stopped''),
              (''rejected_boxes'', JInt (rejected_boxes p)),
              (''remaining'', JInt (quantity p - current_index p)),
              (''can_restart'', JBool True)])))
     (\<lambda>_. counted_from s0) (counted_from s0)"
  proof (rule holds_bind [where R = "\<lambda>p w. counted_from s0 w \<and> session w = Some p"])
    show "holds (counted_from s0) get_production
            (\<lambda>p w. counted_from s0 w \<and> session w = Some p) (counted_from s0)"
      by (auto simp add: holds_def get_production_def split: option.splits)
  next
    fix p
    show "holds (\<lambda>w. counted_from s0 w \<and> session w = Some p)
       (case status p of
         waiting_for_conveyor \<Rightarrow> waiting_branch env c default_response
       | running \<Rightarrow> running_branch env default_response
       | completed \<Rightarrow>
           return_h (dict_update default_response
             [(''status'', JStr ''completed''),
              (''accepted_boxes'', JInt (accepted_boxes p)),
              (''rejected_boxes'', JInt (rejected_boxes p)),
              (''show_summary'', JBool True)])
       | stopped \<Rightarrow>
           return_h (dict_update default_response
             [(''status'', JStr ''stopped''),
              (''rejected_boxes'', JInt (rejected_boxes p)),
              (''remaining'', JInt (quantity p - current_index p)),
              (''can_restart'', JBool True)]))
       (\<lambda>_. counted_from s0) (counted_from s0)"
    proof (cases "status p")
      case waiting_for_conveyor
      then show ?thesis
        by simp (rule holds_weaken [OF waiting_counted], auto)
    next
      case running
      then show ?thesis
        by simp (rule holds_weaken [OF running_counted], auto)
    next
      case completed
      then show ?thesis by (simp add: holds_def return_h_def)
    next
      case stopped
      then show ?thesis by (simp add: holds_def return_h_def)
    qed
  qed
qed

lemma counted_end:
  "counted_from (session w) w' \<Longrightarrow> counted (end_request w w')"
  by (auto simp add: counted_from_def counted_def end_request_def split: option.splits)

lemma poll_counted:
  assumes "counted w"
  shows "counted (snd (request (check_production_status env) w))"
proof -
  have start: "counted_from (session w) (w\<lparr>modified := False\<rparr>)"
    using assms by (simp add: counted_from_def counted_def split: option.splits)
  have "counted_from (session w) (snd (check_production_status env (w\<lparr>modified := False\<rparr>)))"
  proof (cases "session w")
    case None
    with start show ?thesis by (simp add: check_production_status_def)
  next
    case (Some p)
    from holds_snd [OF status_body_counted _ start, of env]
    have "counted_from (session w) (snd (status_body env (w\<lparr>modified := False\<rparr>)))"
      by simp
    with Some show ?thesis
      by (simp add: check_production_status_def)
         (cases "status_body env (w\<lparr>modified := False\<rparr>)", auto split: sum.splits)
  qed
  then show ?thesis
    by (simp add: request_snd counted_end)
qed

subsection \<open>Completed runs\<close>

lemma start_counted:
  assumes "counted w"
  shows "counted (snd (request (start_production data stamps now) w))"
  using assms
  by (auto simp add: counted_def request_snd end_request_def start_production_def start_try_def
        determine_quantity_def h_defs reset_plc_memory_def write_ok addr_defs Let_def
        wf_run_def new_production_def py_index_def
      split: option.splits int_parse.splits sum.splits)

lemma restart_refused_world:
  assumes "session w = None \<or> (session w = Some p \<and> status p \<noteq> stopped)"
  shows "snd (request (restart_conveyor st) w) = w\<lparr>modified := False\<rparr>"
  using assms
  by (auto simp add: request_def end_request_def restart_conveyor_def restart_try_def)

lemma restart_counted:
  assumes "counted w"
  shows "counted (snd (request (restart_conveyor st) w))"
proof (cases "session w = None \<or> (\<exists>p. session w = Some p \<and> status p \<noteq> stopped)")
  case True
  then obtain p where "session w = None \<or> (session w = Some p \<and> status p \<noteq> stopped)"
    by auto
  from restart_refused_world [OF this, of st] assms show ?thesis
    by (auto simp add: counted_def split: option.splits)
next
  case False
  then obtain p where p: "session w = Some p" and s: "status p = stopped"
    by (cases "session w") auto
  from assms p s have "0 \<le> current_index p"
    "current_index p < int (length (qr_codes p))" "faults w = []"
    by (simp_all add: counted_def wf_run_def)
  from restart_ok [OF p s this, of st] assms p show ?thesis
    by (simp add: counted_def wf_run_def addr_defs)
qed

lemma reset_counted:
  assumes "counted w"
  shows "counted (snd (request reset_production w))"
  using assms by (simp add: reset_ok counted_def)

lemma simulate_counted:
  assumes "counted w"
  shows "counted (snd (request simulate_conveyor_start w))"
  using assms
  by (auto simp add: counted_def request_snd end_request_def simulate_conveyor_start_def
        h_defs write_ok addr_defs wf_run_def split: option.splits)

lemma scanner_counted:
  assumes "counted w"
  shows "counted (snd (request activate_scanner w))"
  using assms
  by (auto simp add: counted_def request_snd end_request_def activate_scanner_def
        write_ok addr_defs split: option.splits)

lemma step_counted: "benign e \<Longrightarrow> counted w \<Longrightarrow> counted (step e w)"
proof (cases e)
  case (LineWrite a v)
  assume "benign e" "counted w"
  with LineWrite show ?thesis
    by (auto simp add: counted_def addr_defs split: option.splits)
next
  case (BusFaults fs)
  assume "benign e" "counted w"
  with BusFaults show ?thesis
    by (auto simp add: counted_def split: option.splits)
qed (simp_all add: start_counted poll_counted restart_counted reset_counted simulate_counted
       scanner_counted)

lemma run_counted: "list_all benign es \<Longrightarrow> counted w \<Longrightarrow> counted (run es w)"
  unfolding run_def
  by (induction es arbitrary: w) (simp_all add: step_counted)

text \<open>
  C1, as the claim states it, fails on the accepted count. \<open>accepted_boxes\<close> is not
  counted by the run: it is the accepted register of the bus read back, plus one. On
  \<open>double_count_trace\<close> the only box of the run is counted twice, and the run completes
  with \<open>current_index = quantity = 1\<close> and \<open>accepted_boxes = 2\<close>.
\<close>

theorem accepted_count_after_bus_fault:
  "map_option status (session (run double_count_trace (idle no_signal))) = Some completed
   \<and> map_option quantity (session (run double_count_trace (idle no_signal))) = Some 1
   \<and> map_option current_index (session (run double_count_trace (idle no_signal))) = Some 1
   \<and> map_option accepted_boxes (session (run double_count_trace (idle no_signal))) = Some 2
   \<and> map_option accepted_boxes (session (run double_count_trace (idle no_signal)))
        \<noteq> map_option quantity (session (run double_count_trace (idle no_signal)))"
  by code_simp

text \<open>
  C1, amended. Whatever the requests, the writes of the line and the bus faults since
  the server started, a run found \<open>completed\<close> has \<open>current_index = quantity\<close>, a
  positive quantity and as many codes as boxes. Its \<open>accepted_boxes\<close> equals the
  quantity when no bus fault was scheduled and nothing but the application wrote the
  accepted register.
\<close>

theorem completed_run_counts:
  assumes "session (run es (idle r)) = Some p" "status p = completed"
  shows "current_index p = quantity p \<and> 0 < quantity p
       \<and> int (length (qr_codes p)) = quantity p
       \<and> (list_all benign es \<longrightarrow> accepted_boxes p = quantity p)"
proof -
  have "wf_session (session (run es (idle r)))"
    by (rule run_wf) (simp add: idle_def wf_session_def)
  with assms have wf: "wf_run p"
    by (simp add: wf_session_def)
  have "accepted_boxes p = quantity p" if "list_all benign es"
  proof -
    have "counted (run es (idle r))"
      by (rule run_counted [OF that]) (simp add: idle_def counted_def)
    with assms wf show ?thesis
      by (simp add: counted_def wf_run_def)
  qed
  with wf assms(2) show ?thesis
    by (simp add: wf_run_def)
qed

theorem completed_run_counts_witness:
  "list_all benign one_box_trace
   \<and> map_option status (session (run one_box_trace (idle no_signal))) = Some completed
   \<and> map_option current_index (session (run one_box_trace (idle no_signal)))
        = map_option quantity (session (run one_box_trace (idle no_signal)))
   \<and> map_option accepted_boxes (session (run one_box_trace (idle no_signal)))
        = map_option quantity (session (run one_box_trace (idle no_signal)))"
proof -
  have b: "list_all benign one_box_trace"
    by (simp add: one_box_trace_def addr_defs)
  have c: "map_option status (session (run one_box_trace (idle no_signal))) = Some completed"
    by code_simp
  then obtain p where p: "session (run one_box_trace (idle no_signal)) = Some p"
    and s: "status p = completed"
    by auto
  from completed_run_counts [OF p s] b p c show ?thesis
    by simp
qed

subsection \<open>start_production\<close>

lemma holds_write:
  "(\<And>w. P w \<Longrightarrow> E (consume_fault w))
   \<Longrightarrow> (\<And>w. P w \<Longrightarrow> Q () ((consume_fault w)\<lparr>regs := (regs w)(a - 400001 := v)\<rparr>))
   \<Longrightarrow> holds P (write_plc_memory a v) Q E"
  by (simp add: holds_def write_plc_memory_def)

lemma holds_do_all:
  assumes "\<And>m. m \<in> set ms \<Longrightarrow> holds A m (\<lambda>_. A) E"
  shows "holds A (do_all ms) (\<lambda>_. A) E"
  using assms
proof (induction ms)
  case Nil
  show ?case by (simp add: holds_return)
next
  case (Cons m ms)
  show ?case
    by (simp, rule holds_seq [where R = A]) (simp_all add: Cons)
qed

lemma started_write:
  "holds (started_with p) (write_plc_memory a v) (\<lambda>_. started_with p) (\<lambda>_. True)"
  by (rule holds_write) (simp_all add: started_with_def consume_fault_def)

lemma started_reset:
  "holds (started_with p) reset_plc_memory (\<lambda>_. started_with p) (\<lambda>_. True)"
  unfolding reset_plc_memory_def
  by (rule holds_do_all) (auto intro: started_write)

lemma start_try_started:
  "holds (\<lambda>_. True) (start_try btype br ptype cq stamps now)
     (\<lambda>r w. snd r = 200 \<longrightarrow>
        (\<exists>q. requested_quantity ptype cq = Some q
           \<and> started_with (new_production btype br ptype q
                (map (\<lambda>i. generate_qr_code btype br ptype q (int i) (stamps i)) [0..<nat q])
                now) w))
     (\<lambda>_. True)"
  unfolding start_try_def
proof (rule holds_bind
    [where R = "\<lambda>r w. (\<forall>q. r = Inr q \<longrightarrow> requested_quantity ptype cq = Some q)
                    \<and> (\<forall>e. r = Inl e \<longrightarrow> snd e = 400)"])
  show "holds (\<lambda>_. True) (determine_quantity ptype cq)
          (\<lambda>r w. (\<forall>q. r = Inr q \<longrightarrow> requested_quantity ptype cq = Some q)
                \<and> (\<forall>e. r = Inl e \<longrightarrow> snd e = 400))
          (\<lambda>_. True)"
    by (auto simp add: holds_def determine_quantity_def requested_quantity_def
          return_h_def raise_h_def split: int_parse.splits)
next
  fix r :: "reply + int"
  show "holds (\<lambda>w. (\<forall>q. r = Inr q \<longrightarrow> requested_quantity ptype cq = Some q)
                  \<and> (\<forall>e. r = Inl e \<longrightarrow> snd e = 400))
          (case r of
             Inl early \<Rightarrow> return_h early
           | Inr qty \<Rightarrow>
               let codes = map (\<lambda>i. generate_qr_code btype br ptype qty (int i) (stamps i))
                               [0..<nat qty] in
               seq_h (do_all
                 [set_session (new_production btype br ptype qty codes now),
                  reset_plc_memory,
                  write_plc_memory ACCEPTED_BOXES_ADDRESS 0,
                  write_plc_memory CONVEYOR_CONTROL_ADDRESS 1])
                 (bind_h (lift_h (py_index codes 0)) (\<lambda>first.
                    return_h ([(''message'', JStr ''Production started - waiting for conveyor''),
                               (''first_qr_code'', JCode first),
                               (''total_quantity'', JInt qty)], 200))))
          (\<lambda>r w. snd r = 200 \<longrightarrow>
             (\<exists>q. requested_quantity ptype cq = Some q
                \<and> started_with (new_production btype br ptype q
                     (map (\<lambda>i. generate_qr_code btype br ptype q (int i) (stamps i)) [0..<nat q])
                     now) w))
          (\<lambda>_. True)"
  proof (cases r)
    case (Inl early)
    then show ?thesis
      by (simp add: holds_def return_h_def)
  next
    case (Inr qty)
    let ?codes = "map (\<lambda>i. generate_qr_code btype br ptype qty (int i) (stamps i)) [0..<nat qty]"
    let ?run = "new_production btype br ptype qty ?codes now"
    have first: "holds (\<lambda>w. requested_quantity ptype cq = Some qty) (set_session ?run)
                   (\<lambda>_ w. requested_quantity ptype cq = Some qty \<and> started_with ?run w)
                   (\<lambda>_. True)"
      by (simp add: holds_def set_session_def started_with_def)
    have rest: "holds (\<lambda>w. requested_quantity ptype cq = Some qty \<and> started_with ?run w)
                  (do_all [reset_plc_memory,
                     write_plc_memory ACCEPTED_BOXES_ADDRESS 0,
                     write_plc_memory CONVEYOR_CONTROL_ADDRESS 1])
                  (\<lambda>_ w. requested_quantity ptype cq = Some qty \<and> started_with ?run w)
                  (\<lambda>_. True)"
    proof (cases "requested_quantity ptype cq = Some qty")
      case True
      have "holds (started_with ?run)
              (do_all [reset_plc_memory,
                 write_plc_memory ACCEPTED_BOXES_ADDRESS 0,
                 write_plc_memory CONVEYOR_CONTROL_ADDRESS 1])
              (\<lambda>_. started_with ?run) (\<lambda>_. True)"
        by (rule holds_do_all) (auto intro: started_write started_reset)
      with True show ?thesis by simp
    next
      case False
      then show ?thesis by (simp add: holds_def)
    qed
    have reply: "holds (\<lambda>w. requested_quantity ptype cq = Some qty \<and> started_with ?run w)
                   (bind_h (lift_h (py_index ?codes 0)) (\<lambda>first.
                      return_h ([(''message'', JStr ''Production started - waiting for conveyor''),
                                 (''first_qr_code'', JCode first),
                                 (''total_quantity'', JInt qty)], 200)))
                   (\<lambda>r w. snd r = 200 \<longrightarrow>
                      (\<exists>q. requested_quantity ptype cq = Some q
                         \<and> started_with (new_production btype br ptype q
                              (map (\<lambda>i. generate_qr_code btype br ptype q (int i) (stamps i))
                                 [0..<nat q]) now) w))
                   (\<lambda>_. True)"
      by (auto simp add: holds_def bind_h_def lift_h_def return_h_def split: sum.splits)
    have "holds (\<lambda>w. requested_quantity ptype cq = Some qty)
            (seq_h (seq_h (set_session ?run)
                      (do_all [reset_plc_memory,
                         write_plc_memory ACCEPTED_BOXES_ADDRESS 0,
                         write_plc_memory CONVEYOR_CONTROL_ADDRESS 1]))
               (bind_h (lift_h (py_index ?codes 0)) (\<lambda>first.
                      return_h ([(''message'', JStr ''Production started - waiting for conveyor''),
                                 (''first_qr_code'', JCode first),
                                 (''total_quantity'', JInt qty)], 200))))
            (\<lambda>r w. snd r = 200 \<longrightarrow>
               (\<exists>q. requested_quantity ptype cq = Some q
                  \<and> started_with (new_production btype br ptype q
                       (map (\<lambda>i. generate_qr_code btype br ptype q (int i) (stamps i))
                          [0..<nat q]) now) w))
            (\<lambda>_. True)"
      by (rule holds_seq [OF holds_seq [OF first rest] reply])
    with Inr show ?thesis
      by (simp add: Let_def holds_def)
  qed
qed

lemma start_refused:
  assumes "d_biscuit_type data = None \<or> d_brand data = None \<or> d_production_type data = None
             \<or> d_custom_quantity data = None
             \<or> (d_production_type data \<noteq> Some ''P1'' \<and> d_production_type data \<noteq> Some ''P2''
                 \<and> d_custom_quantity data = Some (Parsed n) \<and> n \<le> 0)"
  shows "snd (fst (request (start_production data stamps now) w)) = 400
       \<and> snd (request (start_production data stamps now) w) = w\<lparr>modified := False\<rparr>"
  using assms
  by (auto simp add: request_def end_request_def start_production_def start_try_def
        determine_quantity_def h_defs split: option.splits)

lemma start_answers_200:
  assumes "d_biscuit_type data = Some btype" "d_brand data = Some br"
    "d_production_type data = Some ptype" "d_custom_quantity data = Some cq"
    "requested_quantity ptype cq = Some q" "faults w = []"
  shows "snd (fst (request (start_production data stamps now) w)) = 200"
  using assms
  by (auto simp add: request_def end_request_def start_production_def start_try_def
        determine_quantity_def requested_quantity_def h_defs reset_plc_memory_def write_ok
        Let_def py_index_def split: int_parse.splits if_splits)

lemma start_ok_started:
  assumes "d_biscuit_type data = Some btype" "d_brand data = Some br"
    "d_production_type data = Some ptype" "d_custom_quantity data = Some cq"
    "requested_quantity ptype cq = Some q"
    "snd (fst (start_production data stamps now w)) = 200"
  shows "started_with (new_production btype br ptype q
            (map (\<lambda>i. generate_qr_code btype br ptype q (int i) (stamps i)) [0..<nat q]) now)
           (snd (start_production data stamps now w))"
proof -
  obtain r w' where t: "start_try btype br ptype cq stamps now w = (r, w')"
    by (cases "start_try btype br ptype cq stamps now w")
  have "case start_try btype br ptype cq stamps now w of
          (Inl e, w') \<Rightarrow> True
        | (Inr a, w') \<Rightarrow> snd a = 200 \<longrightarrow>
            (\<exists>q. requested_quantity ptype cq = Some q
               \<and> started_with (new_production btype br ptype q
                    (map (\<lambda>i. generate_qr_code btype br ptype q (int i) (stamps i)) [0..<nat q])
                    now) w')"
    using start_try_started
      [of btype br ptype cq stamps now, unfolded holds_def, rule_format, of w]
    by simp
  with t assms show ?thesis
    by (cases r) (auto simp add: start_production_def)
qed

text \<open>
  C6, as the claim states it, fails on the run that is already active: nothing in
  \<open>start_production\<close> looks at the session before it is overwritten. After
  \<open>overlap_trace\<close> a run of two boxes is running; a start for three boxes is answered
  with 200 and replaces it.
\<close>

theorem start_overwrites_active_run:
  "map_option status (session (run overlap_trace (idle no_signal))) = Some running
   \<and> map_option quantity (session (run overlap_trace (idle no_signal))) = Some 2
   \<and> snd (fst (request (start_production (demo_data 3) demo_stamps 9)
        (run overlap_trace (idle no_signal)))) = 200
   \<and> map_option quantity (session (snd (request (start_production (demo_data 3) demo_stamps 9)
        (run overlap_trace (idle no_signal))))) = Some 3
   \<and> map_option status (session (snd (request (start_production (demo_data 3) demo_stamps 9)
        (run overlap_trace (idle no_signal))))) = Some waiting_for_conveyor"
  by code_simp

text \<open>
  C6, amended. A start with a missing field, or with a production type other than P1
  and P2 and a custom quantity of 0 or less, is answered with 400 and changes neither
  the session nor the bus. A start with all its fields that asks for \<open>q\<close> boxes (10 for
  P1, 20 for P2, else the positive custom quantity) does not look at the session: on a
  bus without faults it is answered with 200 whether or not a run is active, and
  whenever it is answered with 200 the session holds the new run and nothing of the old
  one: quantity \<open>q\<close>, exactly \<open>q\<close> codes, one generated for each box index,
  \<open>current_index = 0\<close>, no box accepted or rejected, and the status
  \<open>waiting_for_conveyor\<close>.
\<close>

theorem start_production_effect:
  "(d_biscuit_type data = None \<or> d_brand data = None \<or> d_production_type data = None
      \<or> d_custom_quantity data = None
      \<or> (d_production_type data \<noteq> Some ''P1'' \<and> d_production_type data \<noteq> Some ''P2''
          \<and> d_custom_quantity data = Some (Parsed n) \<and> n \<le> 0) \<longrightarrow>
      snd (fst (request (start_production data stamps now) w)) = 400
      \<and> session (snd (request (start_production data stamps now) w)) = session w
      \<and> regs (snd (request (start_production data stamps now) w)) = regs w
      \<and> faults (snd (request (start_production data stamps now) w)) = faults w)
   \<and> (d_biscuit_type data = Some btype \<and> d_brand data = Some br
        \<and> d_production_type data = Some ptype \<and> d_custom_quantity data = Some cq
        \<and> requested_quantity ptype cq = Some q \<longrightarrow>
      (faults w = [] \<longrightarrow> snd (fst (request (start_production data stamps now) w)) = 200)
      \<and> (snd (fst (request (start_production data stamps now) w)) = 200 \<longrightarrow>
           session (snd (request (start_production data stamps now) w))
             = Some (new_production btype br ptype q
                 (map (\<lambda>i. generate_qr_code btype br ptype q (int i) (stamps i)) [0..<nat q])
                 now)
           \<and> map_option quantity (session (snd (request (start_production data stamps now) w)))
               = Some q
           \<and> map_option (\<lambda>p. int (length (qr_codes p)))
               (session (snd (request (start_production data stamps now) w))) = Some q
           \<and> map_option current_index
               (session (snd (request (start_production data stamps now) w))) = Some 0
           \<and> map_option status
               (session (snd (request (start_production data stamps now) w)))
               = Some waiting_for_conveyor))"
proof (intro conjI impI; (elim conjE)?)
  assume f: "d_biscuit_type data = Some btype" "d_brand data = Some br"
    "d_production_type data = Some ptype" "d_custom_quantity data = Some cq"
    "requested_quantity ptype cq = Some q"
  have pos: "0 < q"
    using f(5) by (auto simp add: requested_quantity_def split: if_splits int_parse.splits)
  {
    assume "faults w = []"
    from start_answers_200 [OF f this]
    show "snd (fst (request (start_production data stamps now) w)) = 200" .
  }
  assume ok: "snd (fst (request (start_production data stamps now) w)) = 200"
  then have "snd (fst (start_production data stamps now (w\<lparr>modified := False\<rparr>))) = 200"
    by (simp add: request_fst)
  from start_ok_started [OF f this]
  have s: "session (snd (request (start_production data stamps now) w))
             = Some (new_production btype br ptype q
                 (map (\<lambda>i. generate_qr_code btype br ptype q (int i) (stamps i)) [0..<nat q])
                 now)"
    by (simp add: started_with_def request_snd end_request_def)
  show "session (snd (request (start_production data stamps now) w))
             = Some (new_production btype br ptype q
                 (map (\<lambda>i. generate_qr_code btype br ptype q (int i) (stamps i)) [0..<nat q])
                 now)"
    by (rule s)
  show "map_option quantity (session (snd (request (start_production data stamps now) w)))
               = Some q"
    by (simp add: s new_production_def)
  show "map_option (\<lambda>p. int (length (qr_codes p)))
               (session (snd (request (start_production data stamps now) w))) = Some q"
    using pos by (simp add: s new_production_def)
  show "map_option current_index
               (session (snd (request (start_production data stamps now) w))) = Some 0"
    by (simp add: s new_production_def)
  show "map_option status
               (session (snd (request (start_production data stamps now) w)))
               = Some waiting_for_conveyor"
    by (simp add: s new_production_def)
qed (simp_all add: start_refused)

theorem start_production_effect_witness:
  "snd (fst (request (start_production (demo_data 0) demo_stamps 0)
        (plc_world scanner_on (Some scanning_run)))) = 400
   \<and> session (snd (request (start_production (demo_data 0) demo_stamps 0)
        (plc_world scanner_on (Some scanning_run)))) = Some scanning_run
   \<and> snd (fst (request (start_production (demo_data 3) demo_stamps 0)
        (plc_world scanner_on (Some scanning_run)))) = 200
   \<and> map_option quantity (session (snd (request (start_production (demo_data 3) demo_stamps 0)
        (plc_world scanner_on (Some scanning_run))))) = Some 3
   \<and> map_option (\<lambda>p. int (length (qr_codes p)))
        (session (snd (request (start_production (demo_data 3) demo_stamps 0)
          (plc_world scanner_on (Some scanning_run))))) = Some 3
   \<and> map_option current_index (session (snd (request (start_production (demo_data 3) demo_stamps 0)
        (plc_world scanner_on (Some scanning_run))))) = Some 0
   \<and> map_option status (session (snd (request (start_production (demo_data 3) demo_stamps 0)
        (plc_world scanner_on (Some scanning_run))))) = Some waiting_for_conveyor"
proof -
  have q: "requested_quantity ''P3'' (Parsed 3) = Some 3"
    by (simp add: requested_quantity_def)
  have quiet: "faults (plc_world scanner_on (Some scanning_run)) = []"
    by (simp add: plc_world_def)
  note refused = start_production_effect
      [of "demo_data 0" 0 demo_stamps 0 "plc_world scanner_on (Some scanning_run)",
       THEN conjunct1]
  note asked = start_production_effect
      [of "demo_data 3" _ demo_stamps 0 "plc_world scanner_on (Some scanning_run)"
         "''Cream''" "''Acme''" "''P3''" "Parsed 3" 3,
       THEN conjunct2, rule_format]
  have f: "d_biscuit_type (demo_data 3) = Some ''Cream'' \<and> d_brand (demo_data 3) = Some ''Acme''
        \<and> d_production_type (demo_data 3) = Some ''P3''
        \<and> d_custom_quantity (demo_data 3) = Some (Parsed 3)
        \<and> requested_quantity ''P3'' (Parsed 3) = Some 3"
    by (simp add: demo_data_def q)
  have ok: "snd (fst (request (start_production (demo_data 3) demo_stamps 0)
        (plc_world scanner_on (Some scanning_run)))) = 200"
    using asked [OF f, THEN conjunct1] quiet by simp
  from refused asked [OF f, THEN conjunct2, rule_format, OF ok] ok show ?thesis
    by (simp add: demo_data_def plc_world_def new_production_def)
qed

subsection \<open>Bus faults during a poll\<close>


















lemma py_index_no_bus [simp]: "py_index xs i \<noteq> Inl PLCError"
  by (simp add: py_index_def)








lemma take_fault:
  "(True \<in> set (take (Suc n) (faults w)))
     = (next_fault w \<or> True \<in> set (take n (faults (consume_fault w))))"
  by (cases "faults w") (simp_all add: next_fault_def consume_fault_def)

lemma bind_read:
  "bind_h (read_plc_memory a) f w =
     (if next_fault w then (Inl PLCError, consume_fault w)
      else f (regs w (a - 400001)) (consume_fault w))"
  by (simp add: bind_h_def read_plc_memory_def)

lemma bind_get: "session w = Some p \<Longrightarrow> bind_h get_production f w = f p w"
  by (simp add: bind_h_def get_production_def)

lemma consumed [simp]:
  "session (consume_fault w) = session w" "regs (consume_fault w) = regs w"
  "modified (consume_fault w) = modified w"
  by (simp_all add: consume_fault_def)


lemma body_sampled:
  assumes "session w = Some p" "status p = running" "current_index p < quantity p"
    "True \<notin> set (take 4 (faults w))"
  shows "status_body env w =
     seq_h (automatic_print env (regs w (PROXIMITY_SENSOR_1_ADDRESS - 400001) = 1))
       (bind_h (queued_or_proximity_2 env (regs w (PROXIMITY_SENSOR_1_ADDRESS - 400001) = 1)
                  (regs w (PROXIMITY_SENSOR_2_ADDRESS - 400001) = 1))
          (\<lambda>h. scan_phase env (regs w (PROXIMITY_SENSOR_1_ADDRESS - 400001) = 1)
                 (regs w (PROXIMITY_SENSOR_2_ADDRESS - 400001) = 1)
                 (regs w (QR_SCANNER_ADDRESS - 400001) = 1) h default_response))
       (consume_fault (consume_fault (consume_fault (consume_fault w))))"
  using assms
  by (simp add: status_body_def running_branch_def bind_read bind_get take_fault
        numeral_eq_Suc Let_def)


lemma poll_parts:
  assumes "session w = Some p"
  shows "fst (request (check_production_status env) w)
           = (case fst (status_body env (w\<lparr>modified := False\<rparr>)) of
                Inl e \<Rightarrow> system_error | Inr response \<Rightarrow> (response, 200))"
    and "snd (request (check_production_status env) w)
           = end_request w (snd (status_body env (w\<lparr>modified := False\<rparr>)))"
  using assms
  by (simp_all add: request_def check_production_status_def split: prod.splits sum.splits)




subsection \<open>Polls that change neither status nor index\<close>

lemma unmoved_steps [simp]:
  "unmoved (printed_run env b1 p) = unmoved p"
  "unmoved (sensed_run env b1 b2 p) = unmoved p"
  "unmoved p (Some p)"
  by (simp_all add: unmoved_def printed_run_def sensed_run_def fun_eq_iff)

lemma print_stays:
  "stays (\<lambda>s. s = Some q) (automatic_print env b1)
     (\<lambda>_ s. s = Some (printed_run env b1 q)) (unmoved q)"
  by (auto simp add: stays_def automatic_print_def h_defs write_plc_memory_def
        printed_run_def unmoved_def split: sum.splits)

lemma sensed_stays:
  "stays (\<lambda>s. s = Some q) (queued_or_proximity_2 env b1 b2)
     (\<lambda>_ s. s = Some (sensed_run env b1 b2 q)) (unmoved q)"
  by (auto simp add: stays_def queued_or_proximity_2_def h_defs write_plc_memory_def
        sensed_run_def unmoved_def Let_def split: sum.splits)

lemma scan_stays:
  assumes "\<not> (waiting_for_qr q
             \<and> (case sensor_check_start q of
                  None \<Rightarrow> False
                | Some t \<Rightarrow> b3 \<or> 5 \<le> now_check env - t))"
  shows "stays (\<lambda>s. s = Some q) (scan_phase env b1 b2 b3 h r) (\<lambda>_. unmoved q) (unmoved q)"
  using assms
  by (auto simp add: stays_def scan_phase_def h_defs unmoved_def Let_def
        split: sum.splits option.splits)

lemma tail_quiet:
  assumes "\<not> scan_resolves env b1 b2 b3 p"
  shows "stays (\<lambda>s. s = Some p)
           (seq_h (automatic_print env b1)
              (bind_h (queued_or_proximity_2 env b1 b2)
                 (\<lambda>h. scan_phase env b1 b2 b3 h r)))
           (\<lambda>_. unmoved p) (unmoved p)"
proof (rule stays_seq [OF print_stays])
  show "stays (\<lambda>s. s = Some (printed_run env b1 p))
          (bind_h (queued_or_proximity_2 env b1 b2) (\<lambda>h. scan_phase env b1 b2 b3 h r))
          (\<lambda>_. unmoved p) (unmoved p)"
  proof (rule stays_bind)
    show "stays (\<lambda>s. s = Some (printed_run env b1 p)) (queued_or_proximity_2 env b1 b2)
            (\<lambda>_ s. s = Some (sensed_run env b1 b2 (printed_run env b1 p))) (unmoved p)"
      using sensed_stays [of "printed_run env b1 p" env b1 b2] by simp
  next
    fix h
    show "stays (\<lambda>s. s = Some (sensed_run env b1 b2 (printed_run env b1 p)))
            (scan_phase env b1 b2 b3 h r) (\<lambda>_. unmoved p) (unmoved p)"
      using scan_stays [of "sensed_run env b1 b2 (printed_run env b1 p)" b3 env b1 b2 h r]
        assms
      by (simp add: scan_resolves_def Let_def)
  qed
qed

lemma print_holds:
  assumes "0 \<le> current_index q" "current_index q < int (length (qr_codes q))"
  shows "holds (\<lambda>w. faults w = [] \<and> regs w (ACCEPTED_BOXES_ADDRESS - 400001) = c
                   \<and> session w = Some q)
     (automatic_print env b1)
     (\<lambda>_ w. faults w = [] \<and> regs w (ACCEPTED_BOXES_ADDRESS - 400001) = c
            \<and> session w = Some (printed_run env b1 q))
     (\<lambda>_. False)"
  using assms
  by (auto simp add: holds_def automatic_print_def h_defs write_ok printed_run_def
        py_index_def addr_defs)

lemma sensed_holds:
  "holds (\<lambda>w. faults w = [] \<and> regs w (ACCEPTED_BOXES_ADDRESS - 400001) = c
             \<and> session w = Some q)
     (queued_or_proximity_2 env b1 b2)
     (\<lambda>_ w. faults w = [] \<and> regs w (ACCEPTED_BOXES_ADDRESS - 400001) = c
            \<and> session w = Some (sensed_run env b1 b2 q))
     (\<lambda>_. False)"
  by (auto simp add: holds_def queued_or_proximity_2_def h_defs write_ok sensed_run_def
        Let_def addr_defs)

lemma accept_moves:
  assumes "session w = Some q" "faults w = []"
    "0 \<le> regs w (ACCEPTED_BOXES_ADDRESS - 400001)"
    "regs w (ACCEPTED_BOXES_ADDRESS - 400001) < 65535"
  shows "modified (snd (accept_box r w))"
    and "session (snd (accept_box r w))
           = Some (q\<lparr>accepted_boxes := regs w (ACCEPTED_BOXES_ADDRESS - 400001) + 1,
                     current_index := current_index q + 1,
                     waiting_for_qr := False, queued_box := Some False,
                     waiting_for_proximity_1 := True\<rparr>)"
  using assms
  by (auto simp add: accept_box_def h_defs Let_def write_ok read_ok
        split: sum.splits)

lemma reject_moves:
  assumes "session w = Some q" "faults w = []"
  shows "modified (snd (reject_box r w))"
    and "session (snd (reject_box r w))
           = Some (q\<lparr>rejected_boxes := rejected_boxes q + 1, status := stopped,
                     queued_box := Some False\<rparr>)"
  using assms
  by (auto simp add: reject_box_def h_defs write_ok split: sum.splits)

lemma scan_moves:
  assumes "waiting_for_qr q"
    "case sensor_check_start q of None \<Rightarrow> False | Some t \<Rightarrow> b3 \<or> 5 \<le> now_check env - t"
    "status q = running" "0 \<le> c" "c < 65535"
  shows "holds (\<lambda>w. faults w = [] \<and> regs w (ACCEPTED_BOXES_ADDRESS - 400001) = c
                   \<and> session w = Some q)
     (scan_phase env b1 b2 b3 h r)
     (\<lambda>_ w. modified w \<and> \<not> unmoved q (session w))
     (\<lambda>w. modified w \<and> \<not> unmoved q (session w))"
  unfolding holds_def
proof (intro allI impI)
  fix w :: world
  assume w: "faults w = [] \<and> regs w (ACCEPTED_BOXES_ADDRESS - 400001) = c
               \<and> session w = Some q"
  from assms(2) obtain t where t: "sensor_check_start q = Some t"
    "b3 \<or> 5 \<le> now_check env - t"
    by (cases "sensor_check_start q") simp_all
  have s: "scan_phase env b1 b2 b3 h r w
             = (if b3 then accept_box r w else reject_box r w)"
    using w assms(1) t
    by (auto simp add: scan_phase_def h_defs Let_def)
  have "modified (snd (scan_phase env b1 b2 b3 h r w))
      \<and> \<not> unmoved q (session (snd (scan_phase env b1 b2 b3 h r w)))"
    using w assms(3-5) accept_moves [of w q r] reject_moves [of w q r]
    by (simp add: s unmoved_def)
  then show "case scan_phase env b1 b2 b3 h r w of
               (Inl e, w') \<Rightarrow> modified w' \<and> \<not> unmoved q (session w')
             | (Inr a, w') \<Rightarrow> modified w' \<and> \<not> unmoved q (session w')"
    by (cases "scan_phase env b1 b2 b3 h r w") (auto split: sum.splits)
qed

lemma tail_moves:
  assumes "scan_resolves env b1 b2 b3 p" "status p = running"
    "0 \<le> current_index p" "current_index p < int (length (qr_codes p))"
    "0 \<le> c" "c < 65535"
  shows "holds (\<lambda>w. faults w = [] \<and> regs w (ACCEPTED_BOXES_ADDRESS - 400001) = c
                   \<and> session w = Some p)
           (seq_h (automatic_print env b1)
              (bind_h (queued_or_proximity_2 env b1 b2)
                 (\<lambda>h. scan_phase env b1 b2 b3 h r)))
           (\<lambda>_ w. modified w \<and> \<not> unmoved p (session w))
           (\<lambda>w. modified w \<and> \<not> unmoved p (session w))"
proof (rule holds_seq)
  show "holds (\<lambda>w. faults w = [] \<and> regs w (ACCEPTED_BOXES_ADDRESS - 400001) = c
                   \<and> session w = Some p)
          (automatic_print env b1)
          (\<lambda>_ w. faults w = [] \<and> regs w (ACCEPTED_BOXES_ADDRESS - 400001) = c
            \<and> session w = Some (printed_run env b1 p))
          (\<lambda>w. modified w \<and> \<not> unmoved p (session w))"
    by (rule holds_weaken [OF print_holds [OF assms(3,4)]]) simp_all
next
  show "holds (\<lambda>w. faults w = [] \<and> regs w (ACCEPTED_BOXES_ADDRESS - 400001) = c
            \<and> session w = Some (printed_run env b1 p))
          (bind_h (queued_or_proximity_2 env b1 b2) (\<lambda>h. scan_phase env b1 b2 b3 h r))
          (\<lambda>_ w. modified w \<and> \<not> unmoved p (session w))
          (\<lambda>w. modified w \<and> \<not> unmoved p (session w))"
  proof (rule holds_bind)
    show "holds (\<lambda>w. faults w = [] \<and> regs w (ACCEPTED_BOXES_ADDRESS - 400001) = c
            \<and> session w = Some (printed_run env b1 p))
          (queued_or_proximity_2 env b1 b2)
          (\<lambda>_ w. faults w = [] \<and> regs w (ACCEPTED_BOXES_ADDRESS - 400001) = c
            \<and> session w = Some (sensed_run env b1 b2 (printed_run env b1 p)))
          (\<lambda>w. modified w \<and> \<not> unmoved p (session w))"
      by (rule holds_weaken [OF sensed_holds]) simp_all
  next
    fix h
    have "status (sensed_run env b1 b2 (printed_run env b1 p)) = running"
      using assms(2) by (simp add: sensed_run_def printed_run_def)
    from scan_moves [OF _ _ this assms(5,6), of b3 env b1 b2 h r] assms(1)
    show "holds (\<lambda>w. faults w = [] \<and> regs w (ACCEPTED_BOXES_ADDRESS - 400001) = c
            \<and> session w = Some (sensed_run env b1 b2 (printed_run env b1 p)))
          (scan_phase env b1 b2 b3 h r)
          (\<lambda>_ w. modified w \<and> \<not> unmoved p (session w))
          (\<lambda>w. modified w \<and> \<not> unmoved p (session w))"
      by (simp add: scan_resolves_def Let_def)
  qed
qed

lemma body_sampling_session:
  assumes "session w = Some p" "status p = running" "current_index p < quantity p"
    "True \<in> set (take 4 (faults w))"
  shows "session (snd (status_body env w)) = Some p"
  using assms
  by (auto simp add: status_body_def running_branch_def bind_read bind_get take_fault
        numeral_eq_Suc)

lemma body_quiet:
  assumes "session w = Some p" "\<not> transition_enabled env w p"
  shows "unmoved p (session (snd (status_body env w)))"
proof (cases "status p")
  case waiting_for_conveyor
  with assms show ?thesis
    by (simp add: status_body_def bind_read bind_get waiting_branch_def return_h_def
          transition_enabled_def)
next
  case completed
  with assms show ?thesis
    by (simp add: status_body_def bind_read bind_get return_h_def)
next
  case stopped
  with assms show ?thesis
    by (simp add: status_body_def bind_read bind_get return_h_def)
next
  case running
  with assms(2) have below: "current_index p < quantity p"
    and quiet: "\<not> scan_resolves env (regs w (PROXIMITY_SENSOR_1_ADDRESS - 400001) = 1)
               (regs w (PROXIMITY_SENSOR_2_ADDRESS - 400001) = 1)
               (regs w (QR_SCANNER_ADDRESS - 400001) = 1) p"
    by (simp_all add: transition_enabled_def)
  show ?thesis
  proof (cases "True \<in> set (take 4 (faults w))")
    case True
    from body_sampling_session [OF assms(1) running below True] show ?thesis
      by simp
  next
    case False
    have "session (consume_fault (consume_fault (consume_fault (consume_fault w)))) = Some p"
      using assms(1) by simp
    with tail_quiet [OF quiet, of default_response, unfolded stays_def, rule_format,
        of "consume_fault (consume_fault (consume_fault (consume_fault w)))"]
    show ?thesis
      by (simp add: body_sampled [OF assms(1) running below False]
            split: prod.splits sum.splits)
  qed
qed

lemma body_moves:
  assumes "session w = Some p" "transition_enabled env w p" "faults w = []" "wf_run p"
    "0 \<le> regs w (ACCEPTED_BOXES_ADDRESS - 400001)"
    "regs w (ACCEPTED_BOXES_ADDRESS - 400001) < 65535"
  shows "modified (snd (status_body env w))
       \<and> \<not> unmoved p (session (snd (status_body env w)))"
proof (cases "status p")
  case waiting_for_conveyor
  with assms(1-3) show ?thesis
    by (auto simp add: status_body_def waiting_branch_def h_defs read_ok write_ok
          transition_enabled_def unmoved_def split: sum.splits)
next
  case completed
  with assms(2) show ?thesis by (simp add: transition_enabled_def)
next
  case stopped
  with assms(2) show ?thesis by (simp add: transition_enabled_def)
next
  case running
  show ?thesis
  proof (cases "quantity p \<le> current_index p")
    case True
    with running assms(1,3) show ?thesis
      by (auto simp add: status_body_def running_branch_def complete_run_def h_defs
            read_ok write_ok unmoved_def split: sum.splits)
  next
    case False
    then have below: "current_index p < quantity p" by simp
    with running assms(2)
    have moves: "scan_resolves env (regs w (PROXIMITY_SENSOR_1_ADDRESS - 400001) = 1)
               (regs w (PROXIMITY_SENSOR_2_ADDRESS - 400001) = 1)
               (regs w (QR_SCANNER_ADDRESS - 400001) = 1) p"
      by (simp add: transition_enabled_def)
    have code: "0 \<le> current_index p" "current_index p < int (length (qr_codes p))"
      using assms(4) below by (simp_all add: wf_run_def)
    have clear: "True \<notin> set (take 4 (faults w))"
      using assms(3) by simp
    have same: "consume_fault (consume_fault (consume_fault (consume_fault w))) = w"
      using assms(3) by (simp add: quiet_bus)
    from holds_snd [OF tail_moves [OF moves running code assms(5,6), of default_response],
        where w = w] assms(1,3)
    show ?thesis
      by (simp add: body_sampled [OF assms(1) running below clear] same)
  qed
qed

text \<open>
  C3, as the claim states it, fails on the scan window. After \<open>scan_wait_trace\<close> the
  run waits for the scan since time 2. The poll at time 3 and the poll at time 8 sample
  the same registers; the first leaves the run running, the second rejects the box and
  stops the run.
\<close>

theorem repeated_poll_times_out:
  "map (regs (run scan_wait_trace (idle no_signal))) [0, 1, 2, 3]
     = map (regs (run (scan_wait_trace @ [Poll (demo_env 3)]) (idle no_signal))) [0, 1, 2, 3]
   \<and> map_option status (session (run (scan_wait_trace @ [Poll (demo_env 3)])
        (idle no_signal))) = Some running
   \<and> map_option status (session (run (scan_wait_trace @ [Poll (demo_env 3), Poll (demo_env 8)])
        (idle no_signal))) = Some stopped
   \<and> map_option status (session (run (scan_wait_trace @ [Poll (demo_env 3), Poll (demo_env 8)])
        (idle no_signal)))
        \<noteq> map_option status (session (run (scan_wait_trace @ [Poll (demo_env 3)])
             (idle no_signal)))"
  by code_simp

text \<open>
  C3, amended. A poll leaves \<open>status\<close> and \<open>current_index\<close> of the run as they are,
  whatever bus faults occur, unless one of its transitions is enabled: the run waits for
  the conveyor and the conveyor register reads 5; or it is running with
  \<open>current_index >= quantity\<close>; or it is running and, after the print and the proximity
  updates of the same poll, waits for the scan with the scanner sample active or 5
  seconds gone since \<open>sensor_check_start\<close>. Active proximity samples, and an active
  scanner sample while the run does not wait for the scan, change neither. On a bus
  without faults, for a well-formed run and an accepted register within \<open>0 .. 65534\<close>,
  the condition is exact: the poll changes \<open>status\<close> or \<open>current_index\<close> if and only if
  a transition is enabled.
\<close>

theorem poll_keeps_status_and_index:
  assumes "session w = Some p"
  shows "(\<not> transition_enabled env w p \<longrightarrow>
            map_option status (session (snd (request (check_production_status env) w)))
              = Some (status p)
            \<and> map_option current_index
                (session (snd (request (check_production_status env) w)))
              = Some (current_index p))
       \<and> (faults w = [] \<and> wf_run p
            \<and> 0 \<le> regs w (ACCEPTED_BOXES_ADDRESS - 400001)
            \<and> regs w (ACCEPTED_BOXES_ADDRESS - 400001) < 65535 \<longrightarrow>
            (map_option status (session (snd (request (check_production_status env) w)))
               = Some (status p)
             \<and> map_option current_index
                 (session (snd (request (check_production_status env) w)))
               = Some (current_index p))
              = (\<not> transition_enabled env w p))"
proof -
  let ?w = "w\<lparr>modified := False\<rparr>"
  have s: "session ?w = Some p" using assms by simp
  have e: "transition_enabled env ?w p = transition_enabled env w p"
    by (simp add: transition_enabled_def split: run_status.splits)
  have written: "session (snd (request (check_production_status env) w))
      = (if modified (snd (status_body env ?w)) then session (snd (status_body env ?w))
         else Some p)"
    by (simp add: poll_parts(2) [OF assms] end_request_def assms)
  have quiet: "unmoved p (session (snd (request (check_production_status env) w)))"
    if "\<not> transition_enabled env w p"
    using body_quiet [OF s, of env] that by (simp add: written e)
  have moves: "\<not> unmoved p (session (snd (request (check_production_status env) w)))"
    if "transition_enabled env w p" "faults w = []" "wf_run p"
      "0 \<le> regs w (ACCEPTED_BOXES_ADDRESS - 400001)"
      "regs w (ACCEPTED_BOXES_ADDRESS - 400001) < 65535"
    using body_moves [OF s, of env] that by (simp add: written e)
  from quiet moves show ?thesis
    unfolding unmoved_def by blast
qed

text \<open>
  The witness polls a run that waits for the scan, 3 seconds after proximity 2, with
  proximity 1 active: once with the fifth bus transaction failing, once on a bus without
  faults.
\<close>

theorem poll_keeps_status_and_index_witness:
  "map_option status (session (snd (request (check_production_status (demo_env 3))
      (faulty_world [False, False, False, False, True] proximity_1_on (Some scanning_run)))))
     = Some running
   \<and> map_option current_index (session (snd (request (check_production_status (demo_env 3))
      (faulty_world [False, False, False, False, True] proximity_1_on (Some scanning_run)))))
     = Some 0
   \<and> map_option status (session (snd (request (check_production_status (demo_env 3))
      (plc_world proximity_1_on (Some scanning_run))))) = Some running
   \<and> map_option current_index (session (snd (request (check_production_status (demo_env 3))
      (plc_world proximity_1_on (Some scanning_run))))) = Some 0"
proof -
  have a: "\<not> transition_enabled (demo_env 3)
      (faulty_world [False, False, False, False, True] proximity_1_on (Some scanning_run))
      scanning_run"
    by (simp add: transition_enabled_def scan_resolves_def sensed_run_def printed_run_def
          faulty_world_def proximity_1_on_def demo_defs addr_defs)
  have b: "\<not> transition_enabled (demo_env 3)
      (plc_world proximity_1_on (Some scanning_run)) scanning_run"
    by (simp add: transition_enabled_def scan_resolves_def sensed_run_def printed_run_def
          proximity_1_on_def demo_defs addr_defs)
  have c: "faults (plc_world proximity_1_on (Some scanning_run)) = []
      \<and> wf_run scanning_run
      \<and> 0 \<le> regs (plc_world proximity_1_on (Some scanning_run))
              (ACCEPTED_BOXES_ADDRESS - 400001)
      \<and> regs (plc_world proximity_1_on (Some scanning_run))
              (ACCEPTED_BOXES_ADDRESS - 400001) < 65535"
    by (simp add: wf_run_def proximity_1_on_def demo_defs addr_defs)
  have s: "session (faulty_world [False, False, False, False, True] proximity_1_on
             (Some scanning_run)) = Some scanning_run"
    "session (plc_world proximity_1_on (Some scanning_run)) = Some scanning_run"
    by (simp_all add: faulty_world_def plc_world_def)
  have v: "status scanning_run = running" "current_index scanning_run = 0"
    by (simp_all add: demo_defs)
  from poll_keeps_status_and_index [OF s(1), of "demo_env 3", THEN conjunct1] a
    poll_keeps_status_and_index [OF s(2), of "demo_env 3", THEN conjunct2] b c v
  show ?thesis by simp
qed

end
